(* ===== verification/Prelude.thy ===== *)
theory Prelude
  imports Main "HOL-Library.Word"
begin

text \<open>
  Shared vocabulary of the development: the JavaScript values the client reads and writes
  (\<open>jsval\<close>), JavaScript exceptions (\<open>exn\<close>), property access with its
  \<open>TypeError\<close> on \<open>undefined\<close> and \<open>null\<close>, the string conversions the code
  performs implicitly (\<open>'' + x''\<close>, \<open>console.log\<close>), the UTF-8 byte view of a string
  used by \<open>Buffer.byteLength\<close> and by the Base64 helper, and a scanner for tagged text.
  JavaScript strings are modelled as \<open>string\<close>: one \<open>char\<close> per UTF-16 code unit,
  which restricts the model to code units below 256 (ASCII and Latin-1).
\<close>

named_theorems text_simps "rules for scanning concatenated text"

section \<open>JavaScript values and exceptions\<close>

text \<open>
  Values as the client sees them after \<open>JSON.parse\<close>, \<open>xml2js\<close> or an option merge.
  An object is its list of own properties in insertion order; JSON numbers are kept as
  integers since the client never computes with them.
\<close>

datatype jsval =
    JUndefined
  | JNull
  | JBool bool
  | JNum int
  | JStr string
  | JArr "jsval list"
  | JObj "(string \<times> jsval) list"

text \<open>An exception is an \<open>Error\<close> object: its constructor name and its message.\<close>

datatype exn = JsError (exn_name: string) (exn_message: string)

definition sq :: char where
  "sq = CHR 0x27"

definition exn_to_string :: "exn \<Rightarrow> string" where
  \<comment> \<open>\<open>Error.prototype.toString\<close>, used when an exception is concatenated to a string\<close>
  "exn_to_string e = exn_name e @ '': '' @ exn_message e"

definition type_error :: "string \<Rightarrow> exn" where
  "type_error m = JsError ''TypeError'' m"

text \<open>
  Property read \<open>v.k\<close>: a \<open>TypeError\<close> on \<open>undefined\<close> and \<open>null\<close>; on an object the
  last binding of the key (\<open>JSON.parse\<close> keeps the last of duplicate keys); on any other
  value \<open>undefined\<close> (the keys read by the client, \<open>success\<close> and \<open>token\<close>, are not
  built-in properties of strings, numbers, booleans or arrays).
\<close>

fun js_get :: "jsval \<Rightarrow> string \<Rightarrow> exn + jsval" where
  "js_get JUndefined k =
     Inl (type_error (''Cannot read properties of undefined (reading '' @ [sq] @ k @ [sq] @ '')''))"
| "js_get JNull k =
     Inl (type_error (''Cannot read properties of null (reading '' @ [sq] @ k @ [sq] @ '')''))"
| "js_get (JObj kvs) k = Inr (case map_of (rev kvs) k of None \<Rightarrow> JUndefined | Some v \<Rightarrow> v)"
| "js_get _ k = Inr JUndefined"

text \<open>\<open>String(x)\<close> of a value that may be \<open>undefined\<close> (the body argument of a callback).\<close>

fun js_str_opt :: "string option \<Rightarrow> string" where
  "js_str_opt None = ''undefined''"
| "js_str_opt (Some s) = s"

text \<open>Truthiness, as \<open>if (x)\<close> tests it: \<open>undefined\<close>, \<open>null\<close>, \<open>false\<close>, \<open>0\<close>
  and the empty string are falsy, objects and arrays are truthy.\<close>

fun js_truthy :: "jsval \<Rightarrow> bool" where
  "js_truthy JUndefined = False"
| "js_truthy JNull = False"
| "js_truthy (JBool b) = b"
| "js_truthy (JNum n) = (n \<noteq> 0)"
| "js_truthy (JStr s) = (s \<noteq> [])"
| "js_truthy (JArr _) = True"
| "js_truthy (JObj _) = True"

section \<open>UTF-8 bytes and byte length\<close>

type_synonym byte = "8 word"

text \<open>
  The UTF-8 encoding of a code unit below 256: one byte below 128, two bytes
  (\<open>110000xx 10xxxxxx\<close>) above. This is what \<open>Buffer.byteLength\<close> counts and what a
  Base64 helper encodes.
\<close>

definition utf8_char :: "char \<Rightarrow> byte list" where
  "utf8_char c =
     (let n = of_char c :: nat in
      if n < 128 then [word_of_nat n]
      else [word_of_nat (192 + n div 64), word_of_nat (128 + n mod 64)])"

definition utf8_bytes :: "string \<Rightarrow> byte list" where
  "utf8_bytes s = concat (map utf8_char s)"

definition byte_length :: "string \<Rightarrow> nat" where
  \<comment> \<open>\<open>Buffer.byteLength(s)\<close> with the default UTF-8 encoding\<close>
  "byte_length s = length (utf8_bytes s)"

definition is_ascii :: "string \<Rightarrow> bool" where
  "is_ascii s \<longleftrightarrow> (\<forall>c \<in> set s. of_char c < (128::nat))"

text \<open>Decoding UTF-8 back into code units below 256; \<open>None\<close> on a malformed sequence.\<close>

fun utf8_decode :: "byte list \<Rightarrow> string option" where
  "utf8_decode [] = Some []"
| "utf8_decode (b # bs) =
     (if unat b < 128 then map_option (Cons (char_of (unat b))) (utf8_decode bs)
      else if 192 \<le> unat b \<and> unat b < 196 then
        (case bs of
           [] \<Rightarrow> None
         | b2 # bs' \<Rightarrow>
             if 128 \<le> unat b2 \<and> unat b2 < 192
             then map_option (Cons (char_of ((unat b - 192) * 64 + (unat b2 - 128)))) (utf8_decode bs')
             else None)
      else None)"

section \<open>Decimal rendering of numbers\<close>

text \<open>\<open>String(n)\<close> for a natural number, as a header value is rendered.\<close>

fun show_nat :: "nat \<Rightarrow> string" where
  "show_nat n =
     (if n < 10 then [char_of (48 + n)] else show_nat (n div 10) @ [char_of (48 + n mod 10)])"

declare show_nat.simps [simp del]

text \<open>Reading a decimal numeral back, as a receiver reads a header value.\<close>

fun parse_nat_acc :: "nat \<Rightarrow> string \<Rightarrow> nat" where
  "parse_nat_acc n [] = n"
| "parse_nat_acc n (c # s) = parse_nat_acc (10 * n + (of_char c - 48)) s"

section \<open>Scanning tagged text\<close>

text \<open>
  \<open>starts_with d s\<close>: \<open>d\<close> is a prefix of \<open>s\<close>. At the first occurrence of \<open>d\<close>
  in \<open>s\<close>, \<open>before_tag d s\<close> is the text before it and \<open>after_tag d s\<close> the text
  after it; both are \<open>None\<close> when \<open>d\<close> does not occur.
\<close>

fun starts_with :: "string \<Rightarrow> string \<Rightarrow> bool" where
  "starts_with [] s = True"
| "starts_with (x # xs) [] = False"
| "starts_with (x # xs) (c # s) = (x = c \<and> starts_with xs s)"

fun after_tag :: "string \<Rightarrow> string \<Rightarrow> string option" where
  "after_tag d [] = (if d = [] then Some [] else None)"
| "after_tag d (c # s) =
     (if starts_with d (c # s) then Some (drop (length d) (c # s)) else after_tag d s)"

fun before_tag :: "string \<Rightarrow> string \<Rightarrow> string option" where
  "before_tag d [] = (if d = [] then Some [] else None)"
| "before_tag d (c # s) =
     (if starts_with d (c # s) then Some [] else map_option (Cons c) (before_tag d s))"

text \<open>The text between the first \<open><tag>\<close> and the next \<open></tag>\<close> after it.\<close>

definition xml_text :: "string \<Rightarrow> string \<Rightarrow> string option" where
  "xml_text tag s =
     (case after_tag (''<'' @ tag @ ''>'') s of
        None \<Rightarrow> None
      | Some rest \<Rightarrow> before_tag (''</'' @ tag @ ''>'') rest)"

section \<open>Lemmas\<close>

text \<open>
  Scanning a long concrete text with the full simplifier revisits the whole remaining text
  at every character; \<open>scan_simps\<close> is the small rule set that evaluates the scanners
  structurally, for use with \<open>simp only\<close>.
\<close>

lemmas scan_simps = after_tag.simps before_tag.simps starts_with.simps xml_text_def
  char.inject list.inject list.distinct list.sel(1) simp_thms if_True if_False
  append_Cons append_Nil append_Nil2 option.case option.map option.inject option.distinct
  length_Cons list.size(3) drop_Suc_Cons drop_0

subsection \<open>Bytes and UTF-8\<close>

lemma unat_of_nat_byte: "n < 256 \<Longrightarrow> unat (word_of_nat n :: byte) = n"
  by (simp add: unat_of_nat)

lemma unat_byte_lt: "unat (x :: byte) < 256"
  using unsigned_less[of x, where ?'a = nat] by simp

lemma length_utf8_char: "length (utf8_char c) = (if of_char c < (128::nat) then 1 else 2)"
  by (simp add: utf8_char_def Let_def)

lemma utf8_bytes_simps [simp]:
  "utf8_bytes [] = []"
  "utf8_bytes (c # s) = utf8_char c @ utf8_bytes s"
  "utf8_bytes (s @ t) = utf8_bytes s @ utf8_bytes t"
  by (simp_all add: utf8_bytes_def)

lemma byte_length_append [simp]: "byte_length (s @ t) = byte_length s + byte_length t"
  by (simp add: byte_length_def)

lemma byte_length_Cons [simp]:
  "byte_length (c # s) = (if of_char c < (128::nat) then 1 else 2) + byte_length s"
  by (simp add: byte_length_def length_utf8_char)

lemma byte_length_Nil [simp]: "byte_length [] = 0"
  by (simp add: byte_length_def)

lemma utf8_decode_char: "utf8_decode (utf8_char c @ bs) = map_option (Cons c) (utf8_decode bs)"
proof -
  define n where "n = (of_char c :: nat)"
  have n256: "n < 256" unfolding n_def by simp
  have cn: "char_of n = c" unfolding n_def by simp
  show ?thesis
  proof (cases "n < 128")
    case True
    have "unat (word_of_nat n :: byte) = n" using n256 by (rule unat_of_nat_byte)
    with cn True show ?thesis by (simp add: utf8_char_def Let_def n_def[symmetric])
  next
    case False
    note big = False
    have d: "n div 64 < 4" "2 \<le> n div 64" using n256 big by auto
    have u1: "unat (word_of_nat (192 + n div 64) :: byte) = 192 + n div 64"
      using d by (intro unat_of_nat_byte) simp
    have u2: "unat (word_of_nat (128 + n mod 64) :: byte) = 128 + n mod 64"
      by (intro unat_of_nat_byte) simp
    have r: "(n div 64) * 64 + n mod 64 = n" by simp
    have uc: "utf8_char c = [word_of_nat (192 + n div 64), word_of_nat (128 + n mod 64)]"
      using big by (simp add: utf8_char_def Let_def n_def[symmetric])
    show ?thesis unfolding uc using d u1 u2 r cn
      by (simp del: of_nat_add)
  qed
qed

text \<open>UTF-8 decoding inverts the encoding used by \<open>Buffer\<close> and the Base64 helper.\<close>

lemma utf8_roundtrip: "utf8_decode (utf8_bytes s) = Some s"
  by (induction s) (simp_all add: utf8_decode_char)

lemma byte_length_ascii: "is_ascii s \<Longrightarrow> byte_length s = length s"
  by (induction s) (auto simp: is_ascii_def)

subsection \<open>Decimal numerals\<close>

text \<open>\<open>show_nat\<close> is a decimal rendering: reading it back gives the number.\<close>

lemma parse_nat_acc_append: "parse_nat_acc n (xs @ ys) = parse_nat_acc (parse_nat_acc n xs) ys"
  by (induction xs arbitrary: n) simp_all

lemma of_char_digit: "d < 10 \<Longrightarrow> of_char (char_of (48 + d) :: char) = (48 + d :: nat)"
  by (simp add: of_char_of)

lemma parse_show_nat: "parse_nat_acc 0 (show_nat n) = n"
proof (induction n rule: show_nat.induct)
  case (1 n)
  show ?case
  proof (cases "n < 10")
    case True
    then show ?thesis by (simp add: show_nat.simps[of n] of_char_digit)
  next
    case False
    then have "parse_nat_acc 0 (show_nat n) = 10 * (n div 10) + n mod 10"
      using "1.IH" by (simp add: show_nat.simps[of n] parse_nat_acc_append of_char_digit)
    then show ?thesis by simp
  qed
qed

text \<open>A list mapped to singletons and flattened.\<close>

lemma concat_map_singletons: "(\<And>x. x \<in> set xs \<Longrightarrow> f x = [g x]) \<Longrightarrow> concat (map f xs) = map g xs"
  by (induction xs) simp_all

subsection \<open>Scanning\<close>

lemma starts_with_take: "starts_with d s \<longleftrightarrow> take (length d) s = d"
  by (induction d s rule: starts_with.induct) auto

lemma not_starts_with_hd: "d \<noteq> [] \<Longrightarrow> c \<noteq> hd d \<Longrightarrow> \<not> starts_with d (c # s)"
  by (cases d) auto

text \<open>Text free of the tag's first character is skipped over by both scanners.\<close>

lemma after_tag_skip [text_simps]:
  "d \<noteq> [] \<Longrightarrow> hd d \<notin> set a \<Longrightarrow> after_tag d (a @ b) = after_tag d b"
  by (induction a) (auto simp: not_starts_with_hd)

lemma before_tag_skip [text_simps]:
  "d \<noteq> [] \<Longrightarrow> hd d \<notin> set a \<Longrightarrow> before_tag d (a @ b) = map_option ((@) a) (before_tag d b)"
proof (induction a)
  case Nil then show ?case by (simp add: option.map_ident)
next
  case (Cons c a)
  then have "before_tag d ((c # a) @ b) = map_option (Cons c) (map_option ((@) a) (before_tag d b))"
    by (auto simp: not_starts_with_hd)
  also have "\<dots> = map_option ((@) (c # a)) (before_tag d b)"
    by (cases "before_tag d b") simp_all
  finally show ?case .
qed

end
