(* ===== verification/Options.thy ===== *)
theory Options
  imports Prelude
begin

text \<open>
  The client configuration of \<open>src/index.js\<close> (lines 33--65): the \<open>defaults\<close> object, the
  caller's options merged onto it with \<open>_.merge({}, defaults, options)\<close>, and the base URL
  chosen from \<open>env\<close>. The configuration is a record with one field per key of
  \<open>defaults\<close>; the \<open>errors\<close> table is a nested record. The caller's options are a record
  of optional values: \<open>None\<close> is a key that is absent or \<open>undefined\<close>, which
  \<open>_.merge\<close> skips; any other value (\<open>null\<close> and \<open>''''\<close> included) replaces the
  default, and the nested \<open>errors\<close> object is merged key by key. Caller keys outside
  \<open>defaults\<close> and values of another type than the default's are not modelled.
\<close>

record error_messages =
  noresolve :: string
  noreject :: string
  notoken :: string
  nosuccessontoken :: string

record client_options =
  action :: string
  account :: string
  site_id :: string
  token :: jsval
  site_secure_code :: string
  env :: string
  returnType :: string
  userAgent :: string
  username :: string
  password :: string
  ipaddress :: string
  connectionstring :: string
  errors :: error_messages
  compression :: string
  responseType :: string

record user_errors =
  u_noresolve :: "string option"
  u_noreject :: "string option"
  u_notoken :: "string option"
  u_nosuccessontoken :: "string option"

record user_options =
  u_action :: "string option"
  u_account :: "string option"
  u_site_id :: "string option"
  u_token :: "jsval option"
  u_site_secure_code :: "string option"
  u_env :: "string option"
  u_returnType :: "string option"
  u_userAgent :: "string option"
  u_username :: "string option"
  u_password :: "string option"
  u_ipaddress :: "string option"
  u_connectionstring :: "string option"
  u_errors :: user_errors
  u_compression :: "string option"
  u_responseType :: "string option"

definition defaults :: client_options where
  "defaults =
     \<lparr>action = '''', account = '''', site_id = '''', token = JNull, site_secure_code = '''',
      env = ''production'', returnType = ''object'', userAgent = ''node-naiton-0.0.1'',
      username = '''', password = '''', ipaddress = '''', connectionstring = '''',
      errors =
        \<lparr>noresolve = ''There is no resolve defined, please define a resolve function.'',
         noreject = ''There is no reject defined, please define a reject function.'',
         notoken = ''There is no refresh token set, please authenticate using the function authenticate'',
         nosuccessontoken = ''The credentials used to initialize the session are not correct.''\<rparr>,
      compression = ''0'', responseType = ''json''\<rparr>"

text \<open>The caller passing no options at all (\<open>createClient()\<close> or \<open>createClient({})\<close>).\<close>

definition no_options :: user_options where
  "no_options =
     \<lparr>u_action = None, u_account = None, u_site_id = None, u_token = None,
      u_site_secure_code = None, u_env = None, u_returnType = None, u_userAgent = None,
      u_username = None, u_password = None, u_ipaddress = None, u_connectionstring = None,
      u_errors = \<lparr>u_noresolve = None, u_noreject = None, u_notoken = None,
                  u_nosuccessontoken = None\<rparr>,
      u_compression = None, u_responseType = None\<rparr>"

text \<open>\<open>_.merge\<close> of one key: a defined source value replaces the destination's.\<close>

definition pick :: "'a option \<Rightarrow> 'a \<Rightarrow> 'a" where
  "pick u d = (case u of None \<Rightarrow> d | Some v \<Rightarrow> v)"

definition merge_errors :: "error_messages \<Rightarrow> user_errors \<Rightarrow> error_messages" where
  "merge_errors d u =
     \<lparr>noresolve = pick (u_noresolve u) (noresolve d),
      noreject = pick (u_noreject u) (noreject d),
      notoken = pick (u_notoken u) (notoken d),
      nosuccessontoken = pick (u_nosuccessontoken u) (nosuccessontoken d)\<rparr>"

text \<open>\<open>_.merge({}, defaults, options)\<close> (line 59).\<close>

definition merge_options :: "client_options \<Rightarrow> user_options \<Rightarrow> client_options" where
  "merge_options d u =
     \<lparr>action = pick (u_action u) (action d),
      account = pick (u_account u) (account d),
      site_id = pick (u_site_id u) (site_id d),
      token = pick (u_token u) (token d),
      site_secure_code = pick (u_site_secure_code u) (site_secure_code d),
      env = pick (u_env u) (env d),
      returnType = pick (u_returnType u) (returnType d),
      userAgent = pick (u_userAgent u) (userAgent d),
      username = pick (u_username u) (username d),
      password = pick (u_password u) (password d),
      ipaddress = pick (u_ipaddress u) (ipaddress d),
      connectionstring = pick (u_connectionstring u) (connectionstring d),
      errors = merge_errors (errors d) (u_errors u),
      compression = pick (u_compression u) (compression d),
      responseType = pick (u_responseType u) (responseType d)\<rparr>"

text \<open>The base URL (lines 61--65): both branches name the same host.\<close>

definition base_url :: "string \<Rightarrow> string" where
  "base_url e = (if e = ''test'' then ''http://webservice.naiton.com'' else ''http://webservice.naiton.com'')"

lemma pick_simps [simp]: "pick None d = d" "pick (Some v) d = v"
  by (simp_all add: pick_def)

lemma merge_no_options: "merge_options d no_options = d"
  by (simp add: merge_options_def merge_errors_def no_options_def)

end
