(* ===== verification/Registry.thy ===== *)
theory Registry
  imports Options
begin

text \<open>
  The \<open>Client\<close> constructor of \<open>src/index.js\<close> (lines 31--90): the client object, and
  the loop over the fixed \<open>components\<close> list (line 17) that requires each
  \<open>./components/<name>\<close> module, stores its export in the module-level \<open>exports\<close>
  object and instantiates it under the lower-cased name, logging a line and going on when
  anything in that fails.

  The module system is a parameter: \<open>module_table\<close> maps a path to what \<open>require\<close>
  does with it, either throwing an exception (module not found, or its top-level code
  failed) or returning the module's exports. A constructor either builds a capability or
  throws. A capability is the \<open>Base64\<close> helper or an opaque business manager: the manager
  modules are not in the repository and are modelled by their name only; the back
  reference they receive (\<open>self\<close>) is not modelled because no code here uses it.
\<close>

datatype capability = Base64Helper | Manager string

datatype ctor_result = Constructs capability | CtorThrows exn

datatype export = ExportCtor ctor_result | ExportValue jsval

type_synonym module_exports = "string \<rightharpoonup> export"

type_synonym module_table = "string \<Rightarrow> exn + module_exports"

text \<open>The client object: \<open>models\<close>, \<open>options\<close>, \<open>url\<close> and one property per capability.\<close>

record client =
  models :: "(string \<times> jsval) list"
  options :: client_options
  url :: string
  caps :: "string \<rightharpoonup> capability"

definition components :: "string list" where
  "components = [''Base64'', ''Clientmanager'', ''Businessmanager'', ''Employeemanager'',
                 ''Brandmanager'', ''Rolemanager'']"

text \<open>\<open>String.prototype.toLowerCase\<close> on code units below 256: A to Z and the
  Latin-1 capitals U+00C0 to U+00DE except U+00D7 move up by 32.\<close>

definition js_lower_char :: "char \<Rightarrow> char" where
  "js_lower_char c =
     (let n = of_char c :: nat in
      if (65 \<le> n \<and> n \<le> 90) \<or> (192 \<le> n \<and> n \<le> 222 \<and> n \<noteq> 215) then char_of (n + 32) else c)"

definition js_lower :: "string \<Rightarrow> string" where
  "js_lower s = map js_lower_char s"

definition component_path :: "string \<Rightarrow> string" where
  "component_path cname = ''./components/'' @ js_lower cname"

definition cant_find_line :: "string \<Rightarrow> exn \<Rightarrow> string" where
  "cant_find_line cname e = ''Cant find file: '' @ cname @ '' - '' @ exn_to_string e"

text \<open>
  One iteration of the loop (lines 68--77) on the client, the \<open>exports\<close> object and the
  console: \<open>exports[component] = require(path)[component]\<close>, then
  \<open>self[lower] = new exports[component](self)\<close>, in a \<open>try\<close> whose \<open>catch\<close> logs.
  The export is stored before the constructor runs, so a failing constructor still
  overwrites \<open>exports[component]\<close>.
\<close>

definition load_component ::
  "module_table \<Rightarrow> client \<times> module_exports \<times> string list \<Rightarrow> string \<Rightarrow>
   client \<times> module_exports \<times> string list" where
  "load_component mods st cname =
     (case st of (c, ex, out) \<Rightarrow>
       (case mods (component_path cname) of
          Inl e \<Rightarrow> (c, ex, out @ [cant_find_line cname e])
        | Inr m \<Rightarrow>
            (let ex' = ex(cname := m cname) in
             case m cname of
               Some (ExportCtor (Constructs k)) \<Rightarrow>
                 (c\<lparr>caps := (caps c)(js_lower cname \<mapsto> k)\<rparr>, ex', out)
             | Some (ExportCtor (CtorThrows e)) \<Rightarrow> (c, ex', out @ [cant_find_line cname e])
             | _ \<Rightarrow> (c, ex', out @ [cant_find_line cname
                                    (type_error ''exports[component] is not a constructor'')]))))"

definition load_components ::
  "module_table \<Rightarrow> string list \<Rightarrow> client \<times> module_exports \<times> string list \<Rightarrow>
   client \<times> module_exports \<times> string list" where
  "load_components mods names st = foldl (load_component mods) st names"

text \<open>\<open>new Client(options)\<close> (lines 31--80) and \<open>createClient\<close> (line 88).\<close>

definition new_client ::
  "module_table \<Rightarrow> user_options \<Rightarrow> module_exports \<Rightarrow> client \<times> module_exports \<times> string list" where
  "new_client mods u ex =
     (let opts = merge_options defaults u;
          c0 = \<lparr>models = [], options = opts, url = base_url (env opts), caps = Map.empty\<rparr>
      in load_components mods components (c0, ex, []))"

text \<open>What one component contributes: the capability it yields, or the line it logs.\<close>

definition loaded :: "module_table \<Rightarrow> string \<Rightarrow> capability option" where
  "loaded mods cname =
     (case mods (component_path cname) of
        Inl _ \<Rightarrow> None
      | Inr m \<Rightarrow> (case m cname of Some (ExportCtor (Constructs k)) \<Rightarrow> Some k | _ \<Rightarrow> None))"

definition failure_lines :: "module_table \<Rightarrow> string \<Rightarrow> string list" where
  "failure_lines mods cname =
     (case mods (component_path cname) of
        Inl e \<Rightarrow> [cant_find_line cname e]
      | Inr m \<Rightarrow>
          (case m cname of
             Some (ExportCtor (Constructs k)) \<Rightarrow> []
           | Some (ExportCtor (CtorThrows e)) \<Rightarrow> [cant_find_line cname e]
           | _ \<Rightarrow> [cant_find_line cname (type_error ''exports[component] is not a constructor'')]))"

text \<open>
  The registry the specification describes (section 4.4): a static table from the
  lower-cased name of each component that could be constructed to its capability; absent
  components have no entry.
\<close>

definition registry_spec :: "module_table \<Rightarrow> string \<rightharpoonup> capability" where
  "registry_spec mods =
     map_of (concat (map (\<lambda>n. case loaded mods n of None \<Rightarrow> [] | Some k \<Rightarrow> [(js_lower n, k)]) components))"

lemma load_component_eq:
  "load_component mods (c, ex, out) cname =
     (c\<lparr>caps := (case loaded mods cname of None \<Rightarrow> caps c | Some k \<Rightarrow> (caps c)(js_lower cname \<mapsto> k))\<rparr>,
      (case mods (component_path cname) of Inl _ \<Rightarrow> ex | Inr m \<Rightarrow> ex(cname := m cname)),
      out @ failure_lines mods cname)"
  by (auto simp: load_component_def loaded_def failure_lines_def Let_def
           split: sum.splits option.splits export.splits ctor_result.splits)

lemma load_components_Cons [simp]:
  "load_components mods (n # ns) st = load_components mods ns (load_component mods st n)"
  by (simp add: load_components_def)

lemma load_components_Nil [simp]: "load_components mods [] st = st"
  by (simp add: load_components_def)

lemma load_components_frame:
  "load_components mods ns (c, ex, out) = (c', ex', out') \<Longrightarrow>
   models c' = models c \<and> options c' = options c \<and> url c' = url c"
proof (induction ns arbitrary: c ex out)
  case Nil then show ?case by simp
next
  case (Cons n ns)
  from Cons.prems have "load_components mods ns (load_component mods (c, ex, out) n) = (c', ex', out')"
    by simp
  then show ?case using Cons.IH by (fastforce simp: load_component_eq)
qed

lemma load_components_console:
  "snd (snd (load_components mods ns (c, ex, out))) = out @ concat (map (failure_lines mods) ns)"
  by (induction ns arbitrary: c ex out) (simp_all add: load_component_eq)

lemma load_components_caps_other:
  "x \<notin> js_lower ` set ns \<Longrightarrow> caps (fst (load_components mods ns (c, ex, out))) x = caps c x"
  by (induction ns arbitrary: c ex out) (auto simp: load_component_eq split: option.splits)

lemma load_components_caps:
  "distinct (map js_lower ns) \<Longrightarrow> n \<in> set ns \<Longrightarrow>
   caps (fst (load_components mods ns (c, ex, out))) (js_lower n) =
     (case loaded mods n of None \<Rightarrow> caps c (js_lower n) | Some k \<Rightarrow> Some k)"
proof (induction ns arbitrary: c ex out)
  case Nil then show ?case by simp
next
  case (Cons m ns)
  show ?case
  proof (cases "n = m")
    case True
    with Cons.prems have "js_lower n \<notin> js_lower ` set ns" by auto
    with True show ?thesis
      by (simp add: load_component_eq load_components_caps_other split: option.splits)
  next
    case False
    with Cons.prems have "n \<in> set ns" "distinct (map js_lower ns)" "js_lower m \<noteq> js_lower n"
      by auto
    with Cons.IH show ?thesis
      by (simp add: load_component_eq split: option.splits)
  qed
qed

text \<open>The accessor names of the six components.\<close>

lemma js_lower_components: "map js_lower components =
  [''base64'', ''clientmanager'', ''businessmanager'', ''employeemanager'', ''brandmanager'', ''rolemanager'']"
  by code_simp

lemma load_components_exports:
  "fst (snd (load_components mods ns (c, ex, out))) n =
     (if n \<in> set ns then (case mods (component_path n) of Inl _ \<Rightarrow> ex n | Inr m \<Rightarrow> m n) else ex n)"
  by (induction ns arbitrary: c ex out) (auto simp: load_component_eq split: sum.splits)

lemma new_client_eq:
  "new_client mods u ex =
     load_components mods components
       (\<lparr>models = [], options = merge_options defaults u, url = base_url (env (merge_options defaults u)),
         caps = Map.empty\<rparr>, ex, [])"
  by (simp add: new_client_def Let_def)

lemma components_distinct_lower: "distinct (map js_lower components)"
  by (simp add: js_lower_components)

lemma component_paths:
  "map component_path components =
     [''./components/base64'', ''./components/clientmanager'', ''./components/businessmanager'',
      ''./components/employeemanager'', ''./components/brandmanager'', ''./components/rolemanager'']"
  by code_simp

lemma component_path_simps:
  "component_path ''Base64'' = ''./components/base64''"
  "component_path ''Clientmanager'' = ''./components/clientmanager''"
  "component_path ''Businessmanager'' = ''./components/businessmanager''"
  "component_path ''Employeemanager'' = ''./components/employeemanager''"
  "component_path ''Brandmanager'' = ''./components/brandmanager''"
  "component_path ''Rolemanager'' = ''./components/rolemanager''"
  using component_paths by (simp_all add: components_def)

lemma js_lower_simps:
  "js_lower ''Base64'' = ''base64''" "js_lower ''Clientmanager'' = ''clientmanager''"
  using js_lower_components by (simp_all add: components_def)

text \<open>The capability under an accessor, by the component list.\<close>

lemma new_client_caps:
  "caps (fst (new_client mods u ex)) x =
     (case find (\<lambda>n. js_lower n = x) components of None \<Rightarrow> None | Some n \<Rightarrow> loaded mods n)"
proof (cases "find (\<lambda>n. js_lower n = x) components")
  case None
  then have "x \<notin> js_lower ` set components" by (auto simp: find_None_iff)
  with None show ?thesis by (simp add: new_client_eq load_components_caps_other)
next
  case (Some n)
  then have "n \<in> set components" "js_lower n = x" by (auto simp: find_Some_iff)
  with Some show ?thesis
    by (auto simp: new_client_eq load_components_caps[OF components_distinct_lower] split: option.split)
qed

lemma new_client_caps_loaded:
  "n \<in> set components \<Longrightarrow> caps (fst (new_client mods u ex)) (js_lower n) = loaded mods n"
  by (simp add: new_client_eq load_components_caps[OF components_distinct_lower] split: option.split)

lemma new_client_frame:
  "options (fst (new_client mods u ex)) = merge_options defaults u \<and>
   url (fst (new_client mods u ex)) = base_url (env (merge_options defaults u)) \<and>
   models (fst (new_client mods u ex)) = []"
proof -
  obtain c' ex' out' where nc: "new_client mods u ex = (c', ex', out')" by (cases "new_client mods u ex")
  then show ?thesis using load_components_frame unfolding new_client_eq by fastforce
qed

lemma new_client_console:
  "snd (snd (new_client mods u ex)) = concat (map (failure_lines mods) components)"
  using load_components_console[of mods components] by (simp add: new_client_eq)

text \<open>A table built from a key-distinct list is looked up by the first matching name.\<close>

lemma map_of_table_find:
  "distinct (map js_lower ns) \<Longrightarrow>
   map_of (concat (map (\<lambda>n. case f n of None \<Rightarrow> [] | Some k \<Rightarrow> [(js_lower n, k)]) ns)) x =
     (case find (\<lambda>n. js_lower n = x) ns of None \<Rightarrow> None | Some n \<Rightarrow> f n)"
proof (induction ns)
  case Nil then show ?case by simp
next
  case (Cons m ns)
  then have fresh: "js_lower m \<notin> js_lower ` set ns" by auto
  have none: "find (\<lambda>n. js_lower n = js_lower m) ns = None"
    using fresh by (auto simp: find_None_iff) (metis image_eqI)
  show ?case using Cons fresh none by (auto split: option.split)
qed

text \<open>
  C15. Construction refines the specification's static registry: the capabilities of a new
  client are exactly the table from the lower-cased name of each component that could be
  required and constructed to its capability. A component whose module is missing, that
  exports no constructor, or whose constructor throws has no entry.
\<close>

theorem new_client_refines_registry_spec: "caps (fst (new_client mods u ex)) = registry_spec mods"
proof
  fix x
  show "caps (fst (new_client mods u ex)) x = registry_spec mods x"
    by (simp add: new_client_caps registry_spec_def map_of_table_find components_distinct_lower)
qed

text \<open>
  C16. Construction never fails and leaves the configuration alone: the options are the
  caller's merged onto the defaults, the base URL is the same host whatever \<open>env\<close> says,
  the models are empty, and the console holds one line for each component that could not be
  constructed, in the order of the component list.
\<close>

theorem new_client_config:
  "options (fst (new_client mods u ex)) = merge_options defaults u \<and>
   url (fst (new_client mods u ex)) = ''http://webservice.naiton.com'' \<and>
   models (fst (new_client mods u ex)) = [] \<and>
   snd (snd (new_client mods u ex)) = concat (map (failure_lines mods) components)"
  using new_client_frame[of mods u ex] by (simp add: new_client_console base_url_def)

text \<open>
  C17. The module-level \<open>exports\<close> object after construction: each component whose
  module could be required has its export stored under its name, whether or not its
  constructor succeeded; every other entry is unchanged.
\<close>

theorem new_client_exports:
  "fst (snd (new_client mods u ex)) n =
     (if n \<in> set components then (case mods (component_path n) of Inl _ \<Rightarrow> ex n | Inr m \<Rightarrow> m n) else ex n)"
  by (simp add: new_client_eq load_components_exports)

text \<open>
  C18. A constructor that throws is reported as a missing file: no capability is attached,
  the export is still stored in \<open>exports\<close>, and the console line begins
  \<open>Cant find file\<close>.
\<close>

theorem ctor_failure_logged:
  assumes "n \<in> set components" and "mods (component_path n) = Inr m"
    and "m n = Some (ExportCtor (CtorThrows e))"
  shows "caps (fst (new_client mods u ex)) (js_lower n) = None \<and>
         fst (snd (new_client mods u ex)) n = Some (ExportCtor (CtorThrows e)) \<and>
         cant_find_line n e \<in> set (snd (snd (new_client mods u ex)))"
proof -
  have "loaded mods n = None" "failure_lines mods n = [cant_find_line n e]"
    using assms by (simp_all add: loaded_def failure_lines_def)
  moreover have "cant_find_line n e \<in> set (concat (map (failure_lines mods) components))"
    using assms(1) calculation(2) by force
  ultimately show ?thesis
    using assms by (simp add: new_client_caps_loaded new_client_console) (simp add: new_client_eq load_components_exports)
qed

theorem ctor_failure_logged_witness:
  "caps (fst (new_client (\<lambda>_. Inr [''Base64'' \<mapsto> ExportCtor (CtorThrows (JsError ''Error'' ''boom''))])
      no_options Map.empty)) (js_lower ''Base64'') = None \<and>
   fst (snd (new_client (\<lambda>_. Inr [''Base64'' \<mapsto> ExportCtor (CtorThrows (JsError ''Error'' ''boom''))])
      no_options Map.empty)) ''Base64'' = Some (ExportCtor (CtorThrows (JsError ''Error'' ''boom''))) \<and>
   cant_find_line ''Base64'' (JsError ''Error'' ''boom'') \<in>
     set (snd (snd (new_client (\<lambda>_. Inr [''Base64'' \<mapsto> ExportCtor (CtorThrows (JsError ''Error'' ''boom''))])
      no_options Map.empty)))"
  by (rule ctor_failure_logged[where m = "[''Base64'' \<mapsto> ExportCtor (CtorThrows (JsError ''Error'' ''boom''))]"])
     (simp_all add: components_def)

end
