(* ===== verification/Transport.thy ===== *)
theory Transport
  imports Registry
begin

text \<open>
  \<open>Client.prototype.post(body, resolve, reject)\<close> of \<open>src/index.js\<close> (lines
  104--149), in two parts: the HTTP request it hands to the \<open>request\<close> library
  (\<open>post_request\<close>, lines 107--116), and the callback the library runs when the
  exchange ends (\<open>post_callback\<close>, lines 117--147).

  The callback is modelled as a function of the client at the moment it runs (it reads
  \<open>self.options\<close> then, not when the request was sent) and of the transport outcome. Its
  result is the updated client, the calls it makes to \<open>resolve\<close> and \<open>reject\<close> in order,
  the console lines, and the exception that escapes it, if any. The decoders \<open>JSON.parse\<close>
  and \<open>xml2js.parseString\<close> are library functions and are parameters: a decoder either
  throws or returns a value. For XML the callback stores \<open>parseResult\<close>, which is
  \<open>undefined\<close> when the parser reports an error.

  \<open>settle\<close> is the rule of the \<open>Promise\<close> resolving functions: the first call
  decides, later calls are ignored.
\<close>

record http_request =
  req_url :: string
  req_headers :: "(string \<times> string) list"
  req_encoding :: string
  req_method :: string
  req_body :: string

text \<open>What the \<open>request\<close> library passes to the callback: an error (no response, data
  \<open>undefined\<close>) or a response with its status code and body. The status is not read.\<close>

datatype http_outcome = HttpError exn | HttpResponse nat string

text \<open>The argument of \<open>reject\<close>: the transport error object or a message string.\<close>

datatype reason = ReasonErr exn | ReasonMsg string

datatype cont_call = Resolve "string option" | Reject reason

record decoders =
  json_parse :: "string \<Rightarrow> exn + jsval"
  xml_parse :: "string option \<Rightarrow> exn + jsval"

record cb_result =
  cb_client :: client
  cb_calls :: "cont_call list"
  cb_console :: "string list"
  cb_uncaught :: "exn option"

datatype promise_state = Pending | Fulfilled "string option" | Rejected reason

definition log_prefix :: string where
  "log_prefix = ''[node-naiton] - ''"

definition init_action :: string where
  "init_action = ''/service/initializesession''"

text \<open>The request options of lines 107--116.\<close>

definition post_request :: "client \<Rightarrow> string \<Rightarrow> http_request" where
  "post_request c body =
     \<lparr>req_url = url c @ action (options c),
      req_headers = [(''Content-Type'', ''application/xml; charset=utf-8''),
                     (''Content-Length'', show_nat (byte_length body)),
                     (''Connection'', ''close'')],
      req_encoding = ''utf-8'', req_method = ''POST'', req_body = body\<rparr>"

text \<open>The \<open>switch (self.options.returnType)\<close> of lines 127--137: the console lines it
  writes and the value it leaves in \<open>json\<close>, or the exception \<open>JSON.parse\<close> throws.\<close>

definition decode_body :: "decoders \<Rightarrow> string \<Rightarrow> string option \<Rightarrow> string list \<times> (exn + jsval)" where
  "decode_body dec rt data =
     (if rt = ''xml'' then ([], Inr (case xml_parse dec data of Inl _ \<Rightarrow> JUndefined | Inr v \<Rightarrow> v))
      else if rt = ''object'' then ([js_str_opt data], json_parse dec (js_str_opt data))
      else ([], Inr (JObj [])))"

text \<open>Lines 140--144: store \<open>json.success.token\<close>, or reject when \<open>json.success\<close> is
  \<open>undefined\<close>; either property read may throw.\<close>

definition capture_token :: "client \<Rightarrow> jsval \<Rightarrow> exn + client \<times> cont_call list" where
  "capture_token c json =
     (case js_get json ''success'' of
        Inl e \<Rightarrow> Inl e
      | Inr s \<Rightarrow>
          if s = JUndefined
          then Inr (c, [Reject (ReasonMsg (nosuccessontoken (errors (options c))))])
          else (case js_get s ''token'' of
                  Inl e \<Rightarrow> Inl e
                | Inr t \<Rightarrow> Inr (c\<lparr>options := (options c)\<lparr>token := t\<rparr>\<rparr>, [])))"

text \<open>The whole callback, lines 117--147. \<open>reject(err)\<close> does not return, so the
  callback goes on after a transport error.\<close>

definition post_callback :: "decoders \<Rightarrow> client \<Rightarrow> http_outcome \<Rightarrow> cb_result" where
  "post_callback dec c r =
     (let err_calls = (case r of HttpError e \<Rightarrow> [Reject (ReasonErr e)] | HttpResponse _ _ \<Rightarrow> []);
          data = (case r of HttpError _ \<Rightarrow> None | HttpResponse _ b \<Rightarrow> Some b);
          line = log_prefix @ ''post - request - '' @ action (options c);
          decoded = decode_body dec (returnType (options c)) data;
          out = line # fst decoded
      in case snd decoded of
           Inl e \<Rightarrow> \<lparr>cb_client = c, cb_calls = err_calls, cb_console = out, cb_uncaught = Some e\<rparr>
         | Inr json \<Rightarrow>
             if action (options c) = init_action then
               (case capture_token c json of
                  Inl e \<Rightarrow> \<lparr>cb_client = c, cb_calls = err_calls, cb_console = out, cb_uncaught = Some e\<rparr>
                | Inr (c', calls) \<Rightarrow>
                    \<lparr>cb_client = c', cb_calls = err_calls @ calls @ [Resolve data], cb_console = out,
                     cb_uncaught = None\<rparr>)
             else \<lparr>cb_client = c, cb_calls = err_calls @ [Resolve data], cb_console = out,
                   cb_uncaught = None\<rparr>)"

text \<open>The state a promise reaches from the calls made to its resolving functions.\<close>

fun settle :: "cont_call list \<Rightarrow> promise_state" where
  "settle [] = Pending"
| "settle (Resolve v # _) = Fulfilled v"
| "settle (Reject r # _) = Rejected r"

text \<open>
  Fixtures for the witnesses below: a client, and decoders that know three response
  bodies (a successful login, a refusal, and a \<open>success\<close> object without a token) and
  reject everything else as malformed.
\<close>

definition sample_client :: client where
  "sample_client =
     \<lparr>models = [], options = defaults, url = base_url ''production'', caps = [''base64'' \<mapsto> Base64Helper]\<rparr>"

definition ok_body :: string where
  \<open>ok_body = ''{"success":{"token":"T1"}}''\<close>

definition denied_body :: string where
  \<open>denied_body = ''{"error":"denied"}''\<close>

definition tokenless_body :: string where
  \<open>tokenless_body = ''{"success":{}}''\<close>

definition sample_json :: "string \<Rightarrow> exn + jsval" where
  "sample_json s =
     (if s = ok_body then Inr (JObj [(''success'', JObj [(''token'', JStr ''T1'')])])
      else if s = denied_body then Inr (JObj [(''error'', JStr ''denied'')])
      else if s = tokenless_body then Inr (JObj [(''success'', JObj [])])
      else Inl (JsError ''SyntaxError'' ''Unexpected token in JSON''))"

definition sample_decoders :: decoders where
  "sample_decoders =
     \<lparr>json_parse = sample_json,
      xml_parse = (\<lambda>_. Inl (JsError ''Error'' ''Non-whitespace before first tag.''))\<rparr>"

abbreviation auth_client :: "client \<Rightarrow> client" where
  "auth_client c \<equiv> c\<lparr>options := (options c)\<lparr>action := init_action\<rparr>\<rparr>"

lemma settle_append [simp]: "calls \<noteq> [] \<Longrightarrow> settle (calls @ later) = settle calls"
  by (cases calls rule: settle.cases) auto

text \<open>The callback changes nothing but the token, and the token only under the
  initialize-session action.\<close>

lemma post_callback_client:
  "cb_client (post_callback dec c r) = c \<or>
   (action (options c) = init_action \<and>
    (\<exists>t. cb_client (post_callback dec c r) = c\<lparr>options := (options c)\<lparr>token := t\<rparr>\<rparr>))"
  by (auto simp: post_callback_def capture_token_def Let_def split: sum.split if_split_asm)

lemmas callback_simps = post_callback_def decode_body_def capture_token_def init_action_def

text \<open>
  C1. Authentication success: when the response to the initialize-session action decodes
  to an object whose \<open>success\<close> property is defined and whose \<open>success.token\<close> is
  \<open>t\<close>, the callback stores \<open>t\<close> as the session token, resolves with the raw body,
  makes no other call, logs the request line and the body, and throws nothing.
\<close>

theorem post_callback_auth_success:
  assumes "action (options c) = init_action" and "returnType (options c) = ''object''"
    and "json_parse dec b = Inr json" and "js_get json ''success'' = Inr s" and "s \<noteq> JUndefined"
    and "js_get s ''token'' = Inr t"
  shows "post_callback dec c (HttpResponse st b) =
     \<lparr>cb_client = c\<lparr>options := (options c)\<lparr>token := t\<rparr>\<rparr>, cb_calls = [Resolve (Some b)],
      cb_console = [log_prefix @ ''post - request - '' @ init_action, b], cb_uncaught = None\<rparr>"
  using assms by (simp add: callback_simps)

theorem post_callback_auth_success_witness:
  "post_callback sample_decoders (auth_client sample_client) (HttpResponse 200 ok_body) =
     \<lparr>cb_client = (auth_client sample_client)\<lparr>options := (options (auth_client sample_client))\<lparr>token := JStr ''T1''\<rparr>\<rparr>,
      cb_calls = [Resolve (Some ok_body)],
      cb_console = [log_prefix @ ''post - request - '' @ init_action, ok_body], cb_uncaught = None\<rparr>"
  by (rule post_callback_auth_success[where json = "JObj [(''success'', JObj [(''token'', JStr ''T1'')])]"
        and s = "JObj [(''token'', JStr ''T1'')]"])
     (simp_all add: sample_client_def sample_decoders_def sample_json_def defaults_def)

text \<open>
  C2. Authentication refused: when the decoded response to the initialize-session action
  has no \<open>success\<close> property, the token is left as it was and the callback calls
  \<open>reject\<close> with the configured \<open>nosuccessontoken\<close> message and then \<open>resolve\<close> with
  the body; the promise of \<open>authenticate\<close> is rejected with the message.
\<close>

theorem post_callback_auth_no_success:
  assumes "action (options c) = init_action" and "returnType (options c) = ''object''"
    and "json_parse dec b = Inr json" and "js_get json ''success'' = Inr JUndefined"
  shows "cb_client (post_callback dec c (HttpResponse st b)) = c \<and>
         cb_calls (post_callback dec c (HttpResponse st b)) =
           [Reject (ReasonMsg (nosuccessontoken (errors (options c)))), Resolve (Some b)] \<and>
         settle (cb_calls (post_callback dec c (HttpResponse st b))) =
           Rejected (ReasonMsg (nosuccessontoken (errors (options c))))"
  using assms by (simp add: callback_simps)

theorem post_callback_auth_no_success_witness:
  "cb_client (post_callback sample_decoders (auth_client sample_client) (HttpResponse 401 denied_body)) =
     auth_client sample_client \<and>
   cb_calls (post_callback sample_decoders (auth_client sample_client) (HttpResponse 401 denied_body)) =
     [Reject (ReasonMsg ''The credentials used to initialize the session are not correct.''),
      Resolve (Some denied_body)] \<and>
   settle (cb_calls (post_callback sample_decoders (auth_client sample_client) (HttpResponse 401 denied_body))) =
     Rejected (ReasonMsg ''The credentials used to initialize the session are not correct.'')"
proof -
  let ?c = "auth_client sample_client"
  have h1: "action (options ?c) = init_action" by simp
  have h2: "returnType (options ?c) = ''object''" by (simp add: sample_client_def defaults_def)
  have h3: "json_parse sample_decoders denied_body = Inr (JObj [(''error'', JStr ''denied'')])"
    by (simp add: sample_decoders_def sample_json_def ok_body_def denied_body_def)
  have h4: "js_get (JObj [(''error'', JStr ''denied'')]) ''success'' = Inr JUndefined" by simp
  from post_callback_auth_no_success[OF h1 h2 h3 h4, of 401] show ?thesis
    by (simp add: sample_client_def defaults_def)
qed

text \<open>
  C5. A transport error always rejects: whatever the action, the return type and the
  decoders, the first call the callback makes is \<open>reject(err)\<close>, so the promise is
  rejected with the transport error.
\<close>

theorem post_callback_transport_error:
  "settle (cb_calls (post_callback dec c (HttpError e))) = Rejected (ReasonErr e)"
  by (simp add: post_callback_def Let_def split: sum.split option.split prod.split)

text \<open>
  C6. A body that \<open>JSON.parse\<close> rejects makes the callback throw: no continuation is
  called, so the promise stays pending, the exception escapes the callback, and the
  client is unchanged.
\<close>

theorem post_callback_decode_error:
  assumes "returnType (options c) = ''object''" and "json_parse dec b = Inl e"
  shows "cb_client (post_callback dec c (HttpResponse st b)) = c \<and>
         cb_calls (post_callback dec c (HttpResponse st b)) = [] \<and>
         cb_uncaught (post_callback dec c (HttpResponse st b)) = Some e"
  using assms by (simp add: post_callback_def decode_body_def)

theorem post_callback_decode_error_witness:
  "cb_client (post_callback sample_decoders sample_client (HttpResponse 502 ''<html>Bad gateway</html>'')) =
     sample_client \<and>
   cb_calls (post_callback sample_decoders sample_client (HttpResponse 502 ''<html>Bad gateway</html>'')) = [] \<and>
   cb_uncaught (post_callback sample_decoders sample_client (HttpResponse 502 ''<html>Bad gateway</html>'')) =
     Some (JsError ''SyntaxError'' ''Unexpected token in JSON'')"
  by (rule post_callback_decode_error)
     (simp_all add: sample_client_def sample_decoders_def sample_json_def defaults_def ok_body_def
        denied_body_def tokenless_body_def)

text \<open>
  C7. Only the initialize-session action touches the session: when the action at the time
  the callback runs is any other, the callback leaves the client unchanged, whatever the
  response.
\<close>

theorem post_callback_other_action:
  "action (options c) \<noteq> init_action \<Longrightarrow> cb_client (post_callback dec c r) = c"
  by (simp add: post_callback_def Let_def split: sum.split)

theorem post_callback_other_action_witness:
  "cb_client (post_callback sample_decoders sample_client (HttpResponse 200 ok_body)) = sample_client"
  by (rule post_callback_other_action) (simp add: sample_client_def defaults_def init_action_def)

text \<open>
  C8. With the XML return type a parse error is discarded for any other action: the
  callback resolves with the raw body and throws nothing (for the initialize-session
  action the \<open>undefined\<close> result then makes the \<open>success\<close> read throw, below).
\<close>

theorem post_callback_xml_error_silent:
  assumes "returnType (options c) = ''xml''" and "action (options c) \<noteq> init_action"
    and "xml_parse dec (Some b) = Inl e"
  shows "cb_calls (post_callback dec c (HttpResponse st b)) = [Resolve (Some b)] \<and>
         cb_uncaught (post_callback dec c (HttpResponse st b)) = None"
  using assms by (simp add: post_callback_def decode_body_def)

theorem post_callback_xml_error_silent_witness:
  "cb_calls (post_callback sample_decoders (sample_client\<lparr>options := defaults\<lparr>returnType := ''xml''\<rparr>\<rparr>)
      (HttpResponse 200 ''not xml'')) = [Resolve (Some ''not xml'')] \<and>
   cb_uncaught (post_callback sample_decoders (sample_client\<lparr>options := defaults\<lparr>returnType := ''xml''\<rparr>\<rparr>)
      (HttpResponse 200 ''not xml'')) = None"
  by (rule post_callback_xml_error_silent) (simp_all add: sample_decoders_def defaults_def init_action_def)

lemma post_callback_xml_error_auth:
  assumes "returnType (options c) = ''xml''" and "action (options c) = init_action"
    and "xml_parse dec (Some b) = Inl e"
  shows "cb_calls (post_callback dec c (HttpResponse st b)) = [] \<and>
         cb_uncaught (post_callback dec c (HttpResponse st b)) =
           Some (type_error (''Cannot read properties of undefined (reading '' @ [sq] @ ''success'' @ [sq] @ '')''))"
  using assms by (simp add: callback_simps)

text \<open>
  C9. A \<open>success\<close> object without a \<open>token\<close> property counts as a successful login:
  the session token becomes \<open>undefined\<close> and the promise is fulfilled.
\<close>

theorem post_callback_success_without_token:
  assumes "action (options c) = init_action" and "returnType (options c) = ''object''"
    and "json_parse dec b = Inr json" and "js_get json ''success'' = Inr (JObj kvs)"
    and "''token'' \<notin> fst ` set kvs"
  shows "token (options (cb_client (post_callback dec c (HttpResponse st b)))) = JUndefined \<and>
         settle (cb_calls (post_callback dec c (HttpResponse st b))) = Fulfilled (Some b)"
proof -
  have "map_of (rev kvs) ''token'' = None" using assms(5) by (simp add: map_of_eq_None_iff)
  then show ?thesis using assms by (simp add: callback_simps)
qed

theorem post_callback_success_without_token_witness:
  "token (options (cb_client (post_callback sample_decoders (auth_client sample_client)
      (HttpResponse 200 tokenless_body)))) = JUndefined \<and>
   settle (cb_calls (post_callback sample_decoders (auth_client sample_client)
      (HttpResponse 200 tokenless_body))) = Fulfilled (Some tokenless_body)"
  by (rule post_callback_success_without_token[where kvs = "[]" and json = "JObj [(''success'', JObj [])]"])
     (simp_all add: sample_client_def sample_decoders_def sample_json_def defaults_def ok_body_def
        denied_body_def tokenless_body_def)

lemma post_callback_success_null:
  assumes "action (options c) = init_action" and "returnType (options c) = ''object''"
    and "json_parse dec b = Inr json" and "js_get json ''success'' = Inr JNull"
  shows "cb_calls (post_callback dec c (HttpResponse st b)) = [] \<and>
         cb_uncaught (post_callback dec c (HttpResponse st b)) =
           Some (type_error (''Cannot read properties of null (reading '' @ [sq] @ ''token'' @ [sq] @ '')''))"
  using assms by (simp add: callback_simps)

lemma post_callback_error_then_throws:
  assumes "returnType (options c) = ''object''" and "json_parse dec ''undefined'' = Inl e'"
  shows "cb_calls (post_callback dec c (HttpError e)) = [Reject (ReasonErr e)] \<and>
         cb_uncaught (post_callback dec c (HttpError e)) = Some e'"
  using assms by (simp add: post_callback_def decode_body_def)

end
