(* ===== verification/Base64.thy ===== *)
theory Base64
  imports Prelude
begin

text \<open>
  The \<open>Base64\<close> capability (\<open>components/base64\<close>, loaded by the client constructor and
  called as \<open>this.base64.encode\<close> in \<open>authenticate\<close>). Its source is not part of the
  repository, so it is modelled from the specification: the standard Base64 alphabet with
  \<open>=\<close> padding (RFC 4648) over the UTF-8 bytes of the string, which is what both the
  usual JavaScript helpers and \<open>Buffer.from(s).toString('base64')\<close> compute.
  Shown here: decoding inverts encoding (bytes and strings), the output length is
  \<open>4 * ceil(n / 3)\<close>, and the output uses only the alphabet and \<open>=\<close>, so it never
  contains the XML metacharacters \<open><\<close>, \<open>>\<close> and \<open>&\<close>.
\<close>

definition b64_alphabet :: string where
  "b64_alphabet = ''ABCDEFGHIJKLMNOPQRSTUVWXYZabcdefghijklmnopqrstuvwxyz0123456789+/''"

definition b64_char :: "nat \<Rightarrow> char" where
  "b64_char i = b64_alphabet ! i"

fun pos_of :: "char \<Rightarrow> string \<Rightarrow> nat option" where
  "pos_of c [] = None"
| "pos_of c (x # xs) = (if x = c then Some 0 else map_option Suc (pos_of c xs))"

definition b64_index :: "char \<Rightarrow> nat option" where
  "b64_index c = pos_of c b64_alphabet"

fun b64_encode_bytes :: "byte list \<Rightarrow> string" where
  "b64_encode_bytes (a # b # c # rest) =
     [b64_char (unat a div 4), b64_char (unat a mod 4 * 16 + unat b div 16),
      b64_char (unat b mod 16 * 4 + unat c div 64), b64_char (unat c mod 64)] @ b64_encode_bytes rest"
| "b64_encode_bytes [a, b] =
     [b64_char (unat a div 4), b64_char (unat a mod 4 * 16 + unat b div 16),
      b64_char (unat b mod 16 * 4), CHR ''='']"
| "b64_encode_bytes [a] = [b64_char (unat a div 4), b64_char (unat a mod 4 * 16), CHR ''='', CHR ''='']"
| "b64_encode_bytes [] = []"

fun b64_decode_bytes :: "string \<Rightarrow> byte list option" where
  "b64_decode_bytes (c1 # c2 # c3 # c4 # rest) =
     (case (b64_index c1, b64_index c2) of
        (Some i1, Some i2) \<Rightarrow>
          if c3 = CHR ''='' \<and> c4 = CHR ''='' \<and> rest = [] then Some [word_of_nat (i1 * 4 + i2 div 16)]
          else (case b64_index c3 of
                  None \<Rightarrow> None
                | Some i3 \<Rightarrow>
                    if c4 = CHR ''='' \<and> rest = [] then
                      Some [word_of_nat (i1 * 4 + i2 div 16), word_of_nat (i2 mod 16 * 16 + i3 div 4)]
                    else (case b64_index c4 of
                            None \<Rightarrow> None
                          | Some i4 \<Rightarrow>
                              map_option (\<lambda>bs. [word_of_nat (i1 * 4 + i2 div 16),
                                                 word_of_nat (i2 mod 16 * 16 + i3 div 4),
                                                 word_of_nat (i3 mod 4 * 64 + i4)] @ bs)
                                (b64_decode_bytes rest)))
      | _ \<Rightarrow> None)"
| "b64_decode_bytes [] = Some []"
| "b64_decode_bytes _ = None"

text \<open>The helper's \<open>encode\<close> and \<open>decode\<close> on strings.\<close>

definition base64_encode :: "string \<Rightarrow> string" where
  "base64_encode s = b64_encode_bytes (utf8_bytes s)"

definition base64_decode :: "string \<Rightarrow> string option" where
  "base64_decode t = (case b64_decode_bytes t of None \<Rightarrow> None | Some bs \<Rightarrow> utf8_decode bs)"

lemma b64_alphabet_distinct: "distinct b64_alphabet"
  by (simp add: b64_alphabet_def)

lemma length_b64_alphabet: "length b64_alphabet = 64"
  by (simp add: b64_alphabet_def)

lemma pos_of_nth: "distinct xs \<Longrightarrow> i < length xs \<Longrightarrow> pos_of (xs ! i) xs = Some i"
proof (induction xs arbitrary: i)
  case Nil then show ?case by simp
next
  case (Cons x xs)
  show ?case
  proof (cases i)
    case 0 then show ?thesis by simp
  next
    case (Suc j)
    with Cons.prems have "xs ! j \<noteq> x" using nth_mem by fastforce
    with Cons Suc show ?thesis by simp
  qed
qed

lemma b64_index_char: "i < 64 \<Longrightarrow> b64_index (b64_char i) = Some i"
  by (simp add: b64_index_def b64_char_def pos_of_nth b64_alphabet_distinct length_b64_alphabet)

lemma b64_char_in: "i < 64 \<Longrightarrow> b64_char i \<in> set b64_alphabet"
  by (simp add: b64_char_def length_b64_alphabet)

lemma eq_not_in_alphabet: "CHR ''='' \<notin> set b64_alphabet"
  by (simp add: b64_alphabet_def)

lemma b64_char_not_pad: "i < 64 \<Longrightarrow> b64_char i \<noteq> CHR ''=''"
  using b64_char_in eq_not_in_alphabet by metis



lemma sextets:
  fixes a b c :: nat
  assumes "a < 256" "b < 256" "c < 256"
  shows "a div 4 < 64" "a mod 4 * 16 + b div 16 < 64" "b mod 16 * 4 + c div 64 < 64" "c mod 64 < 64"
    "a mod 4 * 16 < 64" "b mod 16 * 4 < 64"
  using assms by auto

lemma regroup:
  fixes a b c :: nat
  assumes "a < 256" "b < 256" "c < 256"
  shows "a div 4 * 4 + (a mod 4 * 16 + b div 16) div 16 = a"
    "(a mod 4 * 16 + b div 16) mod 16 * 16 + (b mod 16 * 4 + c div 64) div 4 = b"
    "(b mod 16 * 4 + c div 64) mod 4 * 64 + c mod 64 = c"
    "a div 4 * 4 + a mod 4 * 16 div 16 = a"
    "(a mod 4 * 16 + b div 16) mod 16 * 16 + b mod 16 * 4 div 4 = b"
  using assms by auto

text \<open>Decoding inverts encoding on bytes.\<close>

lemma b64_roundtrip: "b64_decode_bytes (b64_encode_bytes bs) = Some bs"
proof (induction bs rule: b64_encode_bytes.induct)
  case (1 a b c rest)
  note bounds = unat_byte_lt[of a] unat_byte_lt[of b] unat_byte_lt[of c]
  show ?case using 1 sextets[OF bounds] regroup[OF bounds]
    by (simp add: b64_index_char b64_char_not_pad)
next
  case (2 a b)
  note bounds = unat_byte_lt[of a] unat_byte_lt[of b] unat_byte_lt[of b]
  show ?case using sextets[OF bounds] regroup[OF bounds]
    by (simp add: b64_index_char b64_char_not_pad)
next
  case (3 a)
  note bounds = unat_byte_lt[of a] unat_byte_lt[of a] unat_byte_lt[of a]
  show ?case using sextets[OF bounds] regroup[OF bounds]
    by (simp add: b64_index_char b64_char_not_pad)
next
  case 4 then show ?case by simp
qed

text \<open>The helper's \<open>decode\<close> inverts its \<open>encode\<close> on every string.\<close>

lemma base64_roundtrip: "base64_decode (base64_encode s) = Some s"
  by (simp add: base64_decode_def base64_encode_def b64_roundtrip utf8_roundtrip)

lemma b64_encode_bytes_chars:
  "set (b64_encode_bytes bs) \<subseteq> insert (CHR ''='') (set b64_alphabet)"
proof (induction bs rule: b64_encode_bytes.induct)
  case (1 a b c rest)
  note bounds = unat_byte_lt[of a] unat_byte_lt[of b] unat_byte_lt[of c]
  from 1 show ?case using sextets[OF bounds] by (auto intro: b64_char_in)
next
  case (2 a b)
  note bounds = unat_byte_lt[of a] unat_byte_lt[of b] unat_byte_lt[of b]
  show ?case using sextets[OF bounds] by (auto intro: b64_char_in)
next
  case (3 a)
  note bounds = unat_byte_lt[of a] unat_byte_lt[of a] unat_byte_lt[of a]
  show ?case using sextets[OF bounds] by (auto intro: b64_char_in)
qed simp

text \<open>Encoded text never contains an XML metacharacter.\<close>

lemma base64_encode_xml_safe:
  "CHR ''<'' \<notin> set (base64_encode s) \<and> CHR ''>'' \<notin> set (base64_encode s) \<and>
   CHR ''&'' \<notin> set (base64_encode s)"
proof -
  have "set (base64_encode s) \<subseteq> insert (CHR ''='') (set b64_alphabet)"
    by (simp add: base64_encode_def b64_encode_bytes_chars)
  moreover have "CHR ''<'' \<notin> insert (CHR ''='') (set b64_alphabet)"
    "CHR ''>'' \<notin> insert (CHR ''='') (set b64_alphabet)"
    "CHR ''&'' \<notin> insert (CHR ''='') (set b64_alphabet)"
    by (simp_all add: b64_alphabet_def)
  ultimately show ?thesis by blast
qed

lemma length_b64_encode_bytes: "length (b64_encode_bytes bs) = 4 * ((length bs + 2) div 3)"
proof (induction bs rule: b64_encode_bytes.induct)
  case (1 a b c rest)
  have "(5 + length rest) div 3 = Suc (Suc (Suc (length rest)) div 3)" by simp
  with 1 show ?case by simp
qed simp_all

text \<open>The encoding of a string is four characters per started group of three UTF-8 bytes.\<close>

lemma length_base64_encode: "length (base64_encode s) = 4 * ((byte_length s + 2) div 3)"
  by (simp add: base64_encode_def byte_length_def length_b64_encode_bytes)

end
