(* ===== verification/Envelope.thy ===== *)
theory Envelope
  imports Base64 Options
begin

text \<open>
  The request envelope of \<open>Client.prototype.authenticate\<close> (\<open>src/index.js\<close>, lines
  169--188): the \<open>InitializeSession\<close> routine with its five arguments, the options block
  declaring per argument whether it is Base64-encoded, and the requested return type.
  \<open>auth_body\<close> is the concatenation of the source, piece by piece, over the encoder the
  client's \<open>base64\<close> capability provides.

  The receiving side is not part of the repository; \<open>read_arg\<close> is a reader that takes
  an argument's text between its tags and decodes it when the options block declares it
  Base64-encoded. Against it the envelope is shown to carry the credentials faithfully
  when the password has no \<open><\<close> (the only argument inserted without encoding or
  escaping), and shown to lose them when the password contains \<open></password>\<close>.
\<close>

definition auth_body :: "(string \<Rightarrow> string) \<Rightarrow> client_options \<Rightarrow> string" where
  \<open>auth_body enc opts =
     '''' @
     ''<_routines>'' @
     ''<_routine>'' @
     ''<_name>InitializeSession</_name>'' @
     ''<_arguments>'' @
     ''<login>'' @ enc (username opts) @ ''</login>'' @
     ''<password>'' @ password opts @ ''</password>'' @
     ''<ipaddress>'' @ enc (ipaddress opts) @ ''</ipaddress>'' @
     ''<timeout>20</timeout>'' @
     ''<connectionstring>'' @ enc (connectionstring opts) @ ''</connectionstring>'' @
     ''</_arguments>'' @
     ''<_options>'' @
     ''<_encoding field="login" isentry="1">1</_encoding>'' @
     ''<_encoding field="password" isentry="1">0</_encoding>'' @
     ''<_encoding field="ipaddress" isentry="1">1</_encoding>'' @
     ''<_encoding field="connectionstring" isentry="1">1</_encoding>'' @
     ''</_options>'' @
     ''</_routine>'' @
     ''<_returnType>json</_returnType>'' @
     ''</_routines>''\<close>

text \<open>The encoding directive the options block declares for an argument.\<close>

definition encoding_flag :: "string \<Rightarrow> string \<Rightarrow> string option" where
  \<open>encoding_flag field body =
     (case after_tag (''<_encoding field="'' @ field @ ''" isentry="1">'') body of
        None \<Rightarrow> None
      | Some rest \<Rightarrow> before_tag ''</_encoding>'' rest)\<close>

text \<open>An argument as a receiver reads it: its text, Base64-decoded when flagged \<open>1\<close>.\<close>

definition read_arg :: "string \<Rightarrow> string \<Rightarrow> string option" where
  "read_arg field body =
     (case xml_text field body of
        None \<Rightarrow> None
      | Some v \<Rightarrow> if encoding_flag field body = Some ''1'' then base64_decode v else Some v)"

definition auth_arguments :: "string list" where
  "auth_arguments = [''login'', ''password'', ''ipaddress'', ''timeout'', ''connectionstring'']"

lemma base64_no_lt [text_simps]: "CHR ''<'' \<notin> set (base64_encode s)"
  using base64_encode_xml_safe by blast

lemma b64_alphabet_ascii: "\<forall>c \<in> insert (CHR ''='') (set b64_alphabet). of_char c < (128::nat)"
  by (simp add: b64_alphabet_def)

lemma base64_encode_ascii: "is_ascii (base64_encode s)"
  using b64_alphabet_ascii b64_encode_bytes_chars
  unfolding is_ascii_def base64_encode_def by blast

lemma byte_length_base64 [simp]: "byte_length (base64_encode s) = 4 * ((byte_length s + 2) div 3)"
  by (simp add: byte_length_ascii base64_encode_ascii length_base64_encode)

lemmas envelope_scan = scan_simps text_simps auth_body_def read_arg_def encoding_flag_def base64_roundtrip

text \<open>Each argument read back from the envelope, when the password has no \<open><\<close>.\<close>

lemma read_arg_auth_body:
  assumes "CHR ''<'' \<notin> set (password opts)"
  shows "read_arg ''login'' (auth_body base64_encode opts) = Some (username opts)"
    and "read_arg ''password'' (auth_body base64_encode opts) = Some (password opts)"
    and "read_arg ''ipaddress'' (auth_body base64_encode opts) = Some (ipaddress opts)"
    and "read_arg ''timeout'' (auth_body base64_encode opts) = Some ''20''"
    and "read_arg ''connectionstring'' (auth_body base64_encode opts) = Some (connectionstring opts)"
  using assms by (simp only: envelope_scan)+

text \<open>
  C3. Round trip of the authentication envelope: a receiver that reads each argument
  between its tags and Base64-decodes the ones the options block flags with \<open>1\<close>
  recovers the login, password, IP address and connection string of the configuration and
  the fixed timeout \<open>20\<close>, for every configuration whose password contains no \<open><\<close>.
\<close>

theorem auth_body_roundtrip:
  assumes "CHR ''<'' \<notin> set (password opts)"
  shows "map (\<lambda>f. read_arg f (auth_body base64_encode opts)) auth_arguments =
         [Some (username opts), Some (password opts), Some (ipaddress opts), Some ''20'',
          Some (connectionstring opts)]"
  using read_arg_auth_body[OF assms] by (simp add: auth_arguments_def)

theorem auth_body_roundtrip_witness:
  "CHR ''<'' \<notin> set ''s3cret'' \<and>
   map (\<lambda>f. read_arg f (auth_body base64_encode (defaults\<lparr>username := ''admin'', password := ''s3cret''\<rparr>)))
     auth_arguments =
   [Some ''admin'', Some ''s3cret'', Some [], Some ''20'', Some []]"
  using auth_body_roundtrip[of "defaults\<lparr>username := ''admin'', password := ''s3cret''\<rparr>"]
  by (simp add: defaults_def)

text \<open>
  C4. The password is inserted into the envelope without escaping: a password containing
  \<open></password>\<close> ends the element early, and the receiver reads a different password.
\<close>

theorem auth_body_password_unescaped:
  "read_arg ''password'' (auth_body base64_encode (opts\<lparr>password := ''a</password>b''\<rparr>)) = Some ''a''"
proof -
  have "password (opts\<lparr>password := ''a</password>b''\<rparr>) = ''a</password>b''" by simp
  then show ?thesis by (simp only: envelope_scan)
qed

text \<open>
  C19. The size of the authentication request: the envelope is 488 bytes of fixed markup,
  plus the password's UTF-8 bytes, plus four characters for every started group of three
  UTF-8 bytes of the login, the IP address and the connection string. This is the number
  \<open>Buffer.byteLength(body)\<close> puts in the \<open>Content-Length\<close> header.
\<close>

theorem auth_body_byte_length:
  "byte_length (auth_body base64_encode opts) =
     488 + 4 * ((byte_length (username opts) + 2) div 3) + byte_length (password opts) +
     4 * ((byte_length (ipaddress opts) + 2) div 3) + 4 * ((byte_length (connectionstring opts) + 2) div 3)"
  by (simp add: auth_body_def)

end
