(* ===== verification/Usage.thy ===== *)
theory Usage
  imports Options
begin

text \<open>
  The usage guard \<open>Client.prototype.verifyAPIUsage(prefix, resolve, reject)\<close> of
  \<open>src/index.js\<close> (lines 207--217), which every capability operation calls before it
  issues a request. A continuation argument is a function or any other JavaScript value;
  the guard only tests for \<open>undefined\<close> and \<open>null\<close>. The result is the returned
  boolean and the lines written to the console.
\<close>

datatype cont_arg = ArgFunction | ArgValue jsval

definition cont_missing :: "cont_arg \<Rightarrow> bool" where
  \<comment> \<open>\<open>typeof x === 'undefined' || x === null\<close>\<close>
  "cont_missing a \<longleftrightarrow> a = ArgValue JUndefined \<or> a = ArgValue JNull"

definition verifyAPIUsage ::
  "client_options \<Rightarrow> string \<Rightarrow> cont_arg \<Rightarrow> cont_arg \<Rightarrow> bool \<times> string list" where
  "verifyAPIUsage opts prefix resolve reject =
     (if cont_missing resolve then (False, [prefix @ noresolve (errors opts)])
      else if cont_missing reject then (False, [prefix @ noreject (errors opts)])
      else (True, []))"

end
