(* ===== verification/Session.thy ===== *)
theory Session
  imports Transport Envelope Usage
begin

text \<open>
  The session: \<open>Client.prototype.authenticate\<close> of \<open>src/index.js\<close> (lines 161--195) and
  the single-threaded event loop in which its request, the requests of capability
  operations and the transport's responses interleave.

  \<open>authenticate\<close> sets \<open>options.action\<close>, builds the envelope through
  \<open>this.base64.encode\<close> (which throws when the \<open>base64\<close> capability is missing, after
  the action was already set), and creates a promise whose executor calls \<open>post\<close>.
  The system state \<open>sys\<close> holds the client, the requests in flight with the
  continuations they will call (the promise of an \<open>authenticate\<close> call or a caller's
  callbacks), every continuation call made so far, the console, the exceptions thrown
  synchronously to callers, and the exception that escaped a callback, which ends the
  Node process. An \<open>event\<close> is one turn of the loop: a call of \<open>authenticate\<close>, a
  direct call of \<open>post\<close>, a write of \<open>options.action\<close>, a capability operation, or the
  transport completing one request in flight. Requests complete in any order.

  Capability operations are not in the repository; \<open>operation_step\<close> follows the
  contract the specification gives them: \<open>verifyAPIUsage\<close>, then set the action, then
  \<open>post\<close>.
\<close>

datatype sink = PromiseSink nat | CallbackSink nat

record pending =
  p_id :: nat
  p_request :: http_request
  p_sink :: sink

record sys =
  s_client :: client
  s_pending :: "pending list"
  s_calls :: "(sink \<times> cont_call) list"
  s_console :: "string list"
  s_thrown :: "exn list"
  s_crash :: "exn option"
  s_next :: nat

datatype event =
    Authenticate
  | Post string
  | SetAction string
  | Operation string cont_arg cont_arg string string
  | Deliver nat http_outcome

definition set_action :: "string \<Rightarrow> client \<Rightarrow> client" where
  "set_action a c = c\<lparr>options := (options c)\<lparr>action := a\<rparr>\<rparr>"

text \<open>\<open>this.base64.encode\<close> as \<open>authenticate\<close> evaluates it: a missing property
  throws on the read of \<open>encode\<close>, a capability without \<open>encode\<close> on the call.\<close>

definition base64_cap_error :: "client \<Rightarrow> exn option" where
  "base64_cap_error c =
     (case caps c ''base64'' of
        None \<Rightarrow> Some (type_error (''Cannot read properties of undefined (reading '' @ [sq] @ ''encode'' @ [sq] @ '')''))
      | Some Base64Helper \<Rightarrow> None
      | Some (Manager _) \<Rightarrow> Some (type_error ''this.base64.encode is not a function''))"

text \<open>Lines 161--188: the client after the action is set, and the body or the exception.\<close>

definition authenticate :: "client \<Rightarrow> client \<times> (exn + string)" where
  "authenticate c =
     (let c1 = set_action init_action c in
      case base64_cap_error c1 of
        Some e \<Rightarrow> (c1, Inl e)
      | None \<Rightarrow> (c1, Inr (auth_body base64_encode (options c1))))"

text \<open>\<open>post\<close> sending its request (lines 104--116): a new request in flight.\<close>

definition issue :: "sys \<Rightarrow> string \<Rightarrow> (nat \<Rightarrow> sink) \<Rightarrow> sys" where
  "issue s body mk =
     s\<lparr>s_pending := s_pending s @
         [\<lparr>p_id = s_next s, p_request = post_request (s_client s) body, p_sink = mk (s_next s)\<rparr>],
       s_next := Suc (s_next s)\<rparr>"

text \<open>The transport completing request \<open>i\<close>: the callback of lines 117--147 runs on the
  client as it is now, and its calls go to that request's continuations.\<close>

definition deliver :: "decoders \<Rightarrow> sys \<Rightarrow> nat \<Rightarrow> http_outcome \<Rightarrow> sys" where
  "deliver dec s i r =
     (case find (\<lambda>p. p_id p = i) (s_pending s) of
        None \<Rightarrow> s
      | Some p \<Rightarrow>
          (let res = post_callback dec (s_client s) r in
           s\<lparr>s_client := cb_client res,
             s_pending := filter (\<lambda>q. p_id q \<noteq> i) (s_pending s),
             s_calls := s_calls s @ map (Pair (p_sink p)) (cb_calls res),
             s_console := s_console s @ cb_console res,
             s_crash := cb_uncaught res\<rparr>))"

text \<open>A call of \<open>authenticate()\<close> (lines 161--195): a synchronous throw reaches the caller;
  otherwise the promise's executor issues the request.\<close>

definition auth_step :: "sys \<Rightarrow> sys" where
  "auth_step s =
     (case authenticate (s_client s) of
        (c', Inl e) \<Rightarrow> s\<lparr>s_client := c', s_thrown := s_thrown s @ [e]\<rparr>
      | (c', Inr body) \<Rightarrow> issue (s\<lparr>s_client := c'\<rparr>) body PromiseSink)"

text \<open>A capability operation as the specification describes it: the usage guard, then
  the action, then \<open>post\<close> with the caller's continuations.\<close>

definition operation_step :: "sys \<Rightarrow> string \<Rightarrow> cont_arg \<Rightarrow> cont_arg \<Rightarrow> string \<Rightarrow> string \<Rightarrow> sys" where
  "operation_step s prefix res rej act body =
     (case verifyAPIUsage (options (s_client s)) prefix res rej of
        (ok, out) \<Rightarrow>
          if ok then issue (s\<lparr>s_client := set_action act (s_client s)\<rparr>) body CallbackSink
          else s\<lparr>s_console := s_console s @ out\<rparr>)"

text \<open>One turn of the event loop; after an escaped exception the process is gone.\<close>

definition sys_step :: "decoders \<Rightarrow> sys \<Rightarrow> event \<Rightarrow> sys" where
  "sys_step dec s e =
     (if s_crash s \<noteq> None then s
      else case e of
        Authenticate \<Rightarrow> auth_step s
      | Post body \<Rightarrow> issue s body CallbackSink
      | SetAction a \<Rightarrow> s\<lparr>s_client := set_action a (s_client s)\<rparr>
      | Operation prefix res rej act body \<Rightarrow> operation_step s prefix res rej act body
      | Deliver i r \<Rightarrow> deliver dec s i r)"

definition run :: "decoders \<Rightarrow> sys \<Rightarrow> event list \<Rightarrow> sys" where
  "run dec s es = foldl (sys_step dec) s es"

definition init_sys :: "client \<Rightarrow> sys" where
  "init_sys c =
     \<lparr>s_client = c, s_pending = [], s_calls = [], s_console = [], s_thrown = [], s_crash = None,
      s_next = 0\<rparr>"

text \<open>The state of the promise returned by the \<open>authenticate\<close> call whose request is \<open>n\<close>.\<close>

definition promise_of :: "sys \<Rightarrow> nat \<Rightarrow> promise_state" where
  "promise_of s n = settle (map snd (filter (\<lambda>kc. fst kc = PromiseSink n) (s_calls s)))"

definition sink_id :: "sink \<Rightarrow> nat" where
  "sink_id k = (case k of PromiseSink n \<Rightarrow> n | CallbackSink n \<Rightarrow> n)"

text \<open>Well-formed states: the requests in flight have distinct identifiers below the
  counter and continuations of their own; every recorded call went to such an identifier.\<close>

definition wf_sys :: "sys \<Rightarrow> bool" where
  "wf_sys s \<longleftrightarrow>
     distinct (map p_id (s_pending s)) \<and>
     (\<forall>p \<in> set (s_pending s). p_id p < s_next s \<and> sink_id (p_sink p) = p_id p) \<and>
     (\<forall>kc \<in> set (s_calls s). sink_id (fst kc) < s_next s)"

lemma run_Nil [simp]: "run dec s [] = s"
  by (simp add: run_def)

lemma run_Cons [simp]: "run dec s (e # es) = run dec (sys_step dec s e) es"
  by (simp add: run_def)

lemma run_append: "run dec s (xs @ ys) = run dec (run dec s xs) ys"
  by (simp add: run_def)

lemma set_action_simps [simp]:
  "token (options (set_action a c)) = token (options c)"
  "action (options (set_action a c)) = a"
  "caps (set_action a c) = caps c"
  "returnType (options (set_action a c)) = returnType (options c)"
  "errors (options (set_action a c)) = errors (options c)"
  by (simp_all add: set_action_def)

lemma wf_init: "wf_sys (init_sys c)"
  by (simp add: wf_sys_def init_sys_def)

lemma sink_id_simps [simp]: "sink_id (PromiseSink n) = n" "sink_id (CallbackSink n) = n"
  by (simp_all add: sink_id_def)

lemma wf_issue:
  "wf_sys s \<Longrightarrow> sink_id (mk (s_next s)) = s_next s \<Longrightarrow> wf_sys (issue s body mk)"
  by (auto simp: wf_sys_def issue_def)

lemma find_Some_in: "find P xs = Some x \<Longrightarrow> x \<in> set xs"
  by (induction xs) (auto split: if_splits)

lemma wf_deliver: "wf_sys s \<Longrightarrow> wf_sys (deliver dec s i r)"
proof -
  assume wf: "wf_sys s"
  show ?thesis
  proof (cases "find (\<lambda>p. p_id p = i) (s_pending s)")
    case None then show ?thesis using wf by (simp add: deliver_def)
  next
    case (Some p)
    then have "p \<in> set (s_pending s)" by (rule find_Some_in)
    with wf have "sink_id (p_sink p) < s_next s" by (auto simp: wf_sys_def)
    with wf Some show ?thesis
      by (auto simp: wf_sys_def deliver_def Let_def distinct_map_filter)
  qed
qed

text \<open>Well-formedness, the hypothesis of the session theorems below, holds initially and is
  kept by every turn of the loop.\<close>

lemma wf_step: "wf_sys s \<Longrightarrow> wf_sys (sys_step dec s e)"
  by (cases e)
     (auto simp: sys_step_def auth_step_def operation_step_def wf_deliver
        split: prod.split sum.split intro!: wf_issue, auto simp: wf_sys_def)

lemma issue_frame [simp]: "s_client (issue s body mk) = s_client s" "s_crash (issue s body mk) = s_crash s"
  by (simp_all add: issue_def)

lemma token_auth_step: "token (options (s_client (auth_step s))) = token (options (s_client s))"
  by (simp add: auth_step_def authenticate_def Let_def split: option.split)

lemma token_operation_step:
  "token (options (s_client (operation_step s p res rej a b))) = token (options (s_client s))"
  by (simp add: operation_step_def split: prod.split)

lemma token_step_not_deliver:
  "(\<And>i r. e \<noteq> Deliver i r) \<Longrightarrow>
   token (options (s_client (sys_step dec s e))) = token (options (s_client s))"
  by (cases e) (auto simp: sys_step_def token_auth_step token_operation_step)

text \<open>
  C10. Single writer of the session token: a turn of the event loop changes the token only
  when the process is alive, the turn is the transport completing a request, and the
  action read at that moment is the initialize-session path.
\<close>

theorem token_step:
  assumes "token (options (s_client (sys_step dec s e))) \<noteq> token (options (s_client s))"
  shows "s_crash s = None \<and> (\<exists>i r. e = Deliver i r) \<and> action (options (s_client s)) = init_action"
proof -
  obtain i r where e: "e = Deliver i r"
    using assms token_step_not_deliver by blast
  have crash: "s_crash s = None" using assms by (cases "s_crash s") (auto simp: sys_step_def)
  have "action (options (s_client s)) = init_action"
  proof (rule ccontr)
    assume "action (options (s_client s)) \<noteq> init_action"
    then have "cb_client (post_callback dec (s_client s) r) = s_client s"
      using post_callback_client[of dec "s_client s" r] by auto
    with assms e crash show False
      by (auto simp: sys_step_def deliver_def Let_def split: option.split_asm)
  qed
  with e crash show ?thesis by blast
qed

lemma filter_fresh_sink:
  "\<forall>kc \<in> set cs. sink_id (fst kc) < n \<Longrightarrow> filter (\<lambda>kc. fst kc = PromiseSink n) cs = []"
  by (induction cs) auto

lemma auth_body_set_action: "auth_body enc (options (set_action a c)) = auth_body enc (options c)"
  by (simp add: set_action_def auth_body_def)

lemma auth_step_ok:
  assumes "caps (s_client s) ''base64'' = Some Base64Helper"
  shows "auth_step s = issue (s\<lparr>s_client := set_action init_action (s_client s)\<rparr>)
                          (auth_body base64_encode (options (s_client s))) PromiseSink"
  using assms by (simp add: auth_step_def authenticate_def base64_cap_error_def auth_body_set_action)

lemma find_fresh_append:
  "\<forall>p \<in> set ps. p_id p < n \<Longrightarrow> find (\<lambda>p. p_id p = n) (ps @ qs) = find (\<lambda>p. p_id p = n) qs"
  by (induction ps) auto

lemma filter_fresh_append:
  "\<forall>p \<in> set ps. p_id p < n \<Longrightarrow> filter (\<lambda>q. p_id q \<noteq> n) (ps @ qs) = ps @ filter (\<lambda>q. p_id q \<noteq> n) qs"
  by (induction ps) auto

text \<open>The transport completing the request just issued, whatever the client has become
  in between: the callback runs on the client as it is at delivery.\<close>

lemma deliver_fresh:
  assumes "wf_sys s" and "post_callback dec c' r = res"
  shows "deliver dec ((issue s body mk)\<lparr>s_client := c'\<rparr>) (s_next s) r =
           (issue s body mk)\<lparr>s_client := cb_client res, s_pending := s_pending s,
              s_calls := s_calls s @ map (Pair (mk (s_next s))) (cb_calls res),
              s_console := s_console s @ cb_console res, s_crash := cb_uncaught res\<rparr>"
proof -
  have lt: "\<forall>p \<in> set (s_pending s). p_id p < s_next s" using assms(1) by (simp add: wf_sys_def)
  then have "filter (\<lambda>q. p_id q \<noteq> s_next s) (s_pending s) = s_pending s"
    by (auto simp: filter_id_conv)
  with lt assms(2) show ?thesis
    by (simp add: deliver_def issue_def find_fresh_append filter_fresh_append)
qed

text \<open>
  C11. Authentication end to end: from a well-formed live state whose client has the Base64
  capability and the object return type, \<open>authenticate()\<close> sends the InitializeSession
  envelope to \<open>url + /service/initializesession\<close> with its promise as continuation;
  when that request is answered with a body whose JSON carries \<open>success.token = t\<close>,
  the session token is \<open>t\<close>, the promise is fulfilled with the body, and the process is
  alive.
\<close>

theorem authenticate_success:
  assumes wf: "wf_sys s" and live: "s_crash s = None"
    and b64: "caps (s_client s) ''base64'' = Some Base64Helper"
    and rt: "returnType (options (s_client s)) = ''object''"
    and "json_parse dec b = Inr json" and "js_get json ''success'' = Inr sv" and "sv \<noteq> JUndefined"
    and "js_get sv ''token'' = Inr t"
  shows "s_pending (sys_step dec s Authenticate) =
           s_pending s @ [\<lparr>p_id = s_next s,
                           p_request = post_request (set_action init_action (s_client s))
                                         (auth_body base64_encode (options (s_client s))),
                           p_sink = PromiseSink (s_next s)\<rparr>] \<and>
         token (options (s_client (run dec s [Authenticate, Deliver (s_next s) (HttpResponse st b)]))) = t \<and>
         promise_of (run dec s [Authenticate, Deliver (s_next s) (HttpResponse st b)]) (s_next s) =
           Fulfilled (Some b) \<and>
         s_crash (run dec s [Authenticate, Deliver (s_next s) (HttpResponse st b)]) = None"
proof -
  let ?c1 = "set_action init_action (s_client s)"
  let ?body = "auth_body base64_encode (options (s_client s))"
  let ?s0 = "s\<lparr>s_client := ?c1\<rparr>"
  have s1: "sys_step dec s Authenticate = issue ?s0 ?body PromiseSink"
    using live b64 by (simp add: sys_step_def auth_step_ok)
  have wf0: "wf_sys ?s0" using wf by (simp add: wf_sys_def)
  have cb0: "post_callback dec ?c1 (HttpResponse st b) =
     \<lparr>cb_client = ?c1\<lparr>options := (options ?c1)\<lparr>token := t\<rparr>\<rparr>, cb_calls = [Resolve (Some b)],
      cb_console = [log_prefix @ ''post - request - '' @ init_action, b], cb_uncaught = None\<rparr>"
    using assms(4-8) by (simp add: callback_simps)
  have same: "(issue ?s0 ?body PromiseSink)\<lparr>s_client := ?c1\<rparr> = issue ?s0 ?body PromiseSink"
    by (simp add: issue_def)
  have s2: "sys_step dec (issue ?s0 ?body PromiseSink) (Deliver (s_next s) (HttpResponse st b)) =
       (issue ?s0 ?body PromiseSink)\<lparr>s_client := ?c1\<lparr>options := (options ?c1)\<lparr>token := t\<rparr>\<rparr>,
          s_pending := s_pending s, s_calls := s_calls s @ [(PromiseSink (s_next s), Resolve (Some b))],
          s_console := s_console s @ [log_prefix @ ''post - request - '' @ init_action, b],
          s_crash := None\<rparr>"
    using deliver_fresh[OF wf0 cb0, of ?body PromiseSink] live unfolding same
    by (simp add: sys_step_def)
  have old: "filter (\<lambda>kc. fst kc = PromiseSink (s_next s)) (s_calls s) = []"
    using wf by (intro filter_fresh_sink) (simp add: wf_sys_def)
  show ?thesis
    using s1 s2 old by (simp add: issue_def promise_of_def set_action_def)
qed

lemma sample_client_simps:
  "caps sample_client ''base64'' = Some Base64Helper"
  "returnType (options sample_client) = ''object''"
  "token (options sample_client) = JNull"
  "errors (options sample_client) = errors defaults"
  by (simp_all add: sample_client_def defaults_def)

lemmas run_simps = sys_step_def auth_step_ok deliver_def issue_def promise_of_def init_sys_def
  sample_client_simps set_action_def Let_def post_callback_def decode_body_def capture_token_def
  sample_decoders_def sample_json_def

text \<open>
  C12. The action is shared state read when the response arrives: from every well-formed
  live state, if anything sets \<open>options.action\<close> to another path while the
  authentication request is in flight, the response fulfils the promise of
  \<open>authenticate()\<close> with the body, whatever the body says (a refusal included), and the
  token is never touched.
\<close>

theorem action_race_loses_token:
  assumes wf: "wf_sys s" and live: "s_crash s = None"
    and b64: "caps (s_client s) ''base64'' = Some Base64Helper"
    and rt: "returnType (options (s_client s)) = ''object''"
    and a: "a \<noteq> init_action" and js: "json_parse dec b = Inr json"
  shows "token (options (s_client (run dec s [Authenticate, SetAction a, Deliver (s_next s) (HttpResponse st b)]))) =
           token (options (s_client s)) \<and>
         promise_of (run dec s [Authenticate, SetAction a, Deliver (s_next s) (HttpResponse st b)]) (s_next s) =
           Fulfilled (Some b) \<and>
         s_crash (run dec s [Authenticate, SetAction a, Deliver (s_next s) (HttpResponse st b)]) = None"
proof -
  let ?c1 = "set_action init_action (s_client s)"
  let ?body = "auth_body base64_encode (options (s_client s))"
  let ?s0 = "s\<lparr>s_client := ?c1\<rparr>"
  have wf0: "wf_sys ?s0" using wf by (simp add: wf_sys_def)
  have s1: "sys_step dec s Authenticate = issue ?s0 ?body PromiseSink"
    using live b64 by (simp add: sys_step_def auth_step_ok)
  have s2: "sys_step dec (issue ?s0 ?body PromiseSink) (SetAction a) =
              (issue ?s0 ?body PromiseSink)\<lparr>s_client := set_action a ?c1\<rparr>"
    using live by (simp add: sys_step_def issue_def)
  have cb: "post_callback dec (set_action a ?c1) (HttpResponse st b) =
     \<lparr>cb_client = set_action a ?c1, cb_calls = [Resolve (Some b)],
      cb_console = [log_prefix @ ''post - request - '' @ a, b], cb_uncaught = None\<rparr>"
    using a rt js by (simp add: callback_simps)
  have old: "filter (\<lambda>kc. fst kc = PromiseSink (s_next s)) (s_calls s) = []"
    using wf by (intro filter_fresh_sink) (simp add: wf_sys_def)
  show ?thesis
    using s1 s2 deliver_fresh[OF wf0 cb, of ?body PromiseSink] live old
    by (simp add: sys_step_def issue_def promise_of_def set_action_def)
qed

text \<open>
  C13. Cross-talk in the other direction: from every well-formed live state, a request
  sent with \<open>post\<close> before \<open>authenticate()\<close> and answered after it is handled while the
  action is the initialize-session path, so a \<open>success.token\<close> in its response becomes the
  session token, while the authentication promise is still pending.
\<close>

theorem action_crosstalk_sets_token:
  assumes wf: "wf_sys s" and live: "s_crash s = None"
    and b64: "caps (s_client s) ''base64'' = Some Base64Helper"
    and rt: "returnType (options (s_client s)) = ''object''"
    and "json_parse dec b = Inr json" and "js_get json ''success'' = Inr sv" and "sv \<noteq> JUndefined"
    and "js_get sv ''token'' = Inr t"
  shows "token (options (s_client (run dec s [Post body, Authenticate, Deliver (s_next s) (HttpResponse st b)]))) = t \<and>
         promise_of (run dec s [Post body, Authenticate, Deliver (s_next s) (HttpResponse st b)]) (Suc (s_next s)) =
           Pending \<and>
         s_crash (run dec s [Post body, Authenticate, Deliver (s_next s) (HttpResponse st b)]) = None"
proof -
  let ?c1 = "set_action init_action (s_client s)"
  let ?s1 = "issue s body CallbackSink"
  have s1: "sys_step dec s (Post body) = ?s1" using live by (simp add: sys_step_def)
  have s2: "sys_step dec ?s1 Authenticate =
              issue (?s1\<lparr>s_client := ?c1\<rparr>) (auth_body base64_encode (options (s_client s))) PromiseSink"
    using live b64 by (simp add: sys_step_def auth_step_ok issue_def)
  have lt: "\<forall>p \<in> set (s_pending s). p_id p < s_next s" using wf by (simp add: wf_sys_def)
  have cb: "post_callback dec ?c1 (HttpResponse st b) =
     \<lparr>cb_client = ?c1\<lparr>options := (options ?c1)\<lparr>token := t\<rparr>\<rparr>, cb_calls = [Resolve (Some b)],
      cb_console = [log_prefix @ ''post - request - '' @ init_action, b], cb_uncaught = None\<rparr>"
    using assms(4-8) by (simp add: callback_simps)
  have old: "filter (\<lambda>kc. fst kc = PromiseSink (Suc (s_next s))) (s_calls s) = []"
    using wf by (intro filter_fresh_sink) (auto simp: wf_sys_def)
  show ?thesis
    using s1 s2 cb lt old live
    by (simp add: sys_step_def deliver_def issue_def Let_def find_fresh_append filter_fresh_append
        promise_of_def set_action_def)
qed

text \<open>
  C14. Without the Base64 capability \<open>authenticate()\<close> throws a \<open>TypeError\<close> to its caller
  instead of returning a rejected promise, sends no request, and leaves
  \<open>options.action\<close> set to the initialize-session path.
\<close>

theorem authenticate_without_base64:
  assumes "s_crash s = None" and "caps (s_client s) ''base64'' = None"
  shows "s_pending (sys_step dec s Authenticate) = s_pending s \<and>
         s_thrown (sys_step dec s Authenticate) =
           s_thrown s @ [type_error (''Cannot read properties of undefined (reading '' @ [sq] @ ''encode'' @ [sq] @ '')'')] \<and>
         action (options (s_client (sys_step dec s Authenticate))) = init_action"
  using assms by (simp add: sys_step_def auth_step_def authenticate_def base64_cap_error_def)

theorem token_step_witness:
  "s_crash (sys_step sample_decoders (init_sys sample_client) Authenticate) = None \<and>
   (\<exists>i r. Deliver 0 (HttpResponse 200 ok_body) = Deliver i r) \<and>
   action (options (s_client (sys_step sample_decoders (init_sys sample_client) Authenticate))) = init_action"
  by (rule token_step[where dec = sample_decoders]) (simp add: run_simps ok_body_def)

theorem authenticate_success_witness:
  "s_pending (sys_step sample_decoders (init_sys sample_client) Authenticate) =
     [\<lparr>p_id = 0,
       p_request = post_request (set_action init_action sample_client)
                     (auth_body base64_encode (options sample_client)),
       p_sink = PromiseSink 0\<rparr>] \<and>
   token (options (s_client (run sample_decoders (init_sys sample_client)
     [Authenticate, Deliver 0 (HttpResponse 200 ok_body)]))) = JStr ''T1'' \<and>
   promise_of (run sample_decoders (init_sys sample_client)
     [Authenticate, Deliver 0 (HttpResponse 200 ok_body)]) 0 = Fulfilled (Some ok_body) \<and>
   s_crash (run sample_decoders (init_sys sample_client) [Authenticate, Deliver 0 (HttpResponse 200 ok_body)]) = None"
  using authenticate_success[OF wf_init[of sample_client], where dec = sample_decoders
      and b = ok_body and json = "JObj [(''success'', JObj [(''token'', JStr ''T1'')])]"
      and sv = "JObj [(''token'', JStr ''T1'')]" and t = "JStr ''T1''" and st = 200]
  by (simp add: sample_client_simps init_sys_def sample_decoders_def sample_json_def)

theorem authenticate_without_base64_witness:
  "s_pending (sys_step sample_decoders (init_sys (sample_client\<lparr>caps := Map.empty\<rparr>)) Authenticate) = [] \<and>
   s_thrown (sys_step sample_decoders (init_sys (sample_client\<lparr>caps := Map.empty\<rparr>)) Authenticate) =
     [type_error (''Cannot read properties of undefined (reading '' @ [sq] @ ''encode'' @ [sq] @ '')'')] \<and>
   action (options (s_client (sys_step sample_decoders (init_sys (sample_client\<lparr>caps := Map.empty\<rparr>)) Authenticate))) =
     init_action"
  using authenticate_without_base64[of "init_sys (sample_client\<lparr>caps := Map.empty\<rparr>)" sample_decoders]
  by (simp add: init_sys_def)


theorem action_race_loses_token_witness:
  "token (options (s_client (run sample_decoders (init_sys sample_client)
      [Authenticate, SetAction ''/service/clientmanager/getcountrylist'', Deliver 0 (HttpResponse 200 denied_body)]))) =
     JNull \<and>
   promise_of (run sample_decoders (init_sys sample_client)
      [Authenticate, SetAction ''/service/clientmanager/getcountrylist'', Deliver 0 (HttpResponse 200 denied_body)]) 0 =
     Fulfilled (Some denied_body) \<and>
   s_crash (run sample_decoders (init_sys sample_client)
      [Authenticate, SetAction ''/service/clientmanager/getcountrylist'', Deliver 0 (HttpResponse 200 denied_body)]) = None"
  using action_race_loses_token[OF wf_init[of sample_client], where dec = sample_decoders
      and a = "''/service/clientmanager/getcountrylist''" and b = denied_body
      and json = "JObj [(''error'', JStr ''denied'')]" and st = 200]
  by (simp add: sample_client_simps init_sys_def init_action_def sample_decoders_def sample_json_def
      ok_body_def denied_body_def)

theorem action_crosstalk_sets_token_witness:
  "token (options (s_client (run sample_decoders (init_sys sample_client)
      [Post ''<_routines/>'', Authenticate, Deliver 0 (HttpResponse 200 ok_body)]))) = JStr ''T1'' \<and>
   promise_of (run sample_decoders (init_sys sample_client)
      [Post ''<_routines/>'', Authenticate, Deliver 0 (HttpResponse 200 ok_body)]) 1 = Pending \<and>
   s_crash (run sample_decoders (init_sys sample_client)
      [Post ''<_routines/>'', Authenticate, Deliver 0 (HttpResponse 200 ok_body)]) = None"
  using action_crosstalk_sets_token[OF wf_init[of sample_client], where dec = sample_decoders
      and body = "''<_routines/>''" and b = ok_body
      and json = "JObj [(''success'', JObj [(''token'', JStr ''T1'')])]"
      and sv = "JObj [(''token'', JStr ''T1'')]" and t = "JStr ''T1''" and st = 200]
  by (simp add: sample_client_simps init_sys_def sample_decoders_def sample_json_def)

end
