(* ===== verification/Bootstrap.thy ===== *)
theory Bootstrap
  imports Session
begin

text \<open>
  The debug script of \<open>src/index.js\<close> (lines 226--296) and the module load around it.
  \<open>debugMode\<close> is the constant \<open>true\<close> (line 16), so loading the module requires its
  packages (lines 4--10), creates a client with \<open>env: 'test'\<close>, requires \<open>mongoose\<close>
  and \<open>./models/naitonclient\<close>, and calls \<open>authenticate()\<close>: \<open>boot_load\<close>, whose
  result is the loaded system state or the exception the load throws with the console
  written before it.

  When the authentication promise settles, its \<open>then\<close> handlers run an
  \<open>async.waterfall\<close> of two tasks: \<open>getcountrylist\<close> and \<open>addclient\<close> on the client
  manager. The state \<open>boot\<close> records the console, the manager operations launched with
  the callback they hold, whether the final callback ran, the rejections of the promise
  returned by \<open>then\<close>, and the exception that ended the process. An event settles the
  promise or makes the manager call the success or the failure handler of an operation;
  the manager modules are not in the repository, so any sequence of calls is allowed.

  \<open>async\<close> is a library: \<open>wf_callback\<close> follows the documented waterfall of async 1.x.
  The callback handed to task \<open>j\<close> (\<open>ACb j\<close>), called as \<open>cb(err, ...vals)\<close>, runs
  the final callback (once only) when \<open>err\<close> is truthy or \<open>j\<close> is the last task, and
  otherwise calls task \<open>j + 1\<close> with \<open>vals\<close> followed by its own callback. Parameters
  bind by position (\<open>bind_arg\<close>), missing ones to \<open>undefined\<close>. The mongoose model
  registry and the document \<open>new NaitonClient({...})\<close> builds are not modelled: they have
  no effect on the control flow.
\<close>

section \<open>Loading the module\<close>

definition packages :: "string list" where
  "packages = [''querystring'', ''request'', ''MD5'', ''async'', ''xml2js'', ''promise'', ''lodash'']"

fun require_all :: "module_table \<Rightarrow> string list \<Rightarrow> exn option" where
  "require_all mods [] = None"
| "require_all mods (p # ps) = (case mods p of Inl e \<Rightarrow> Some e | Inr _ \<Rightarrow> require_all mods ps)"

datatype load_result = LoadThrows "string list" exn | Loaded sys

definition boot_options :: user_options where
  "boot_options = no_options\<lparr>u_env := Some ''test''\<rparr>"

definition boot_load :: "module_table \<Rightarrow> decoders \<Rightarrow> module_exports \<Rightarrow> load_result" where
  "boot_load mods dec ex =
     (case require_all mods packages of
        Some e \<Rightarrow> LoadThrows [] e
      | None \<Rightarrow>
          (case new_client mods boot_options ex of
             (c, _, out) \<Rightarrow>
               (case require_all mods [''mongoose'', ''./models/naitonclient''] of
                  Some e \<Rightarrow> LoadThrows out e
                | None \<Rightarrow>
                    (let s1 = sys_step dec ((init_sys c)\<lparr>s_console := out\<rparr>) Authenticate in
                     case s_thrown s1 of
                       [] \<Rightarrow> Loaded s1
                     | e # _ \<Rightarrow> LoadThrows (s_console s1) e))))"

section \<open>The script after loading\<close>

datatype arg = AVal jsval | ACb nat

datatype log_entry = LogVal arg | LogExn exn

datatype boot_op = CountryListOp arg | AddClientOp arg

record boot =
  bt_caps :: "string \<rightharpoonup> capability"
  bt_console :: "log_entry list"
  bt_ops :: "boot_op list"
  bt_final :: bool
  bt_settled :: bool
  bt_rejected :: "exn list"
  bt_crash :: "exn option"

datatype boot_event = AuthSettled promise_state | OpSuccess nat jsval | OpFailure nat jsval

definition log_text :: "string \<Rightarrow> log_entry" where
  "log_text s = LogVal (AVal (JStr s))"

definition console_log :: "log_entry \<Rightarrow> boot \<Rightarrow> boot" where
  "console_log l b = b\<lparr>bt_console := bt_console b @ [l]\<rparr>"

definition bind_arg :: "arg list \<Rightarrow> nat \<Rightarrow> arg" where
  "bind_arg args j = (if j < length args then args ! j else AVal JUndefined)"

definition final_line :: string where
  "final_line = ''Last action... done here.''"

definition final_cb :: "boot \<Rightarrow> boot" where
  "final_cb b = (if bt_final b then b else (console_log (log_text final_line) b)\<lparr>bt_final := True\<rparr>)"

definition manager_call :: "string \<Rightarrow> boot_op \<Rightarrow> boot \<Rightarrow> boot \<times> exn option" where
  "manager_call meth op b =
     (case bt_caps b ''clientmanager'' of
        None \<Rightarrow> (b, Some (type_error (''Cannot read properties of undefined (reading '' @ [sq] @ meth @ [sq] @ '')'')))
      | Some Base64Helper \<Rightarrow> (b, Some (type_error (''newClient.clientmanager.'' @ meth @ '' is not a function'')))
      | Some (Manager _) \<Rightarrow> (b\<lparr>bt_ops := bt_ops b @ [op]\<rparr>, None))"

definition task_countrylist :: "arg list \<Rightarrow> boot \<Rightarrow> boot \<times> exn option" where
  "task_countrylist args b =
     manager_call ''getcountrylist'' (CountryListOp (bind_arg args 0)) (console_log (log_text ''Waterfall start'') b)"

definition task_addclient :: "arg list \<Rightarrow> boot \<Rightarrow> boot \<times> exn option" where
  "task_addclient args b =
     manager_call ''addclient'' (AddClientOp (bind_arg args 1)) (console_log (LogVal (bind_arg args 0)) b)"

definition wf_tasks :: nat where
  "wf_tasks = 2"

definition run_task :: "nat \<Rightarrow> arg list \<Rightarrow> boot \<Rightarrow> boot \<times> exn option" where
  "run_task j args b = (if j = 0 then task_countrylist args b else task_addclient args b)"

definition wf_callback :: "nat \<Rightarrow> jsval \<Rightarrow> jsval list \<Rightarrow> boot \<Rightarrow> boot \<times> exn option" where
  "wf_callback j err vals b =
     (if Suc j < wf_tasks \<and> \<not> js_truthy err then run_task (Suc j) (map AVal vals @ [ACb (Suc j)]) b
      else (final_cb b, None))"

definition call_cb :: "arg \<Rightarrow> jsval \<Rightarrow> jsval list \<Rightarrow> boot \<Rightarrow> boot \<times> exn option" where
  "call_cb f err vals b =
     (case f of ACb j \<Rightarrow> wf_callback j err vals b | AVal _ \<Rightarrow> (b, Some (type_error ''cb is not a function'')))"

definition op_success :: "boot_op \<Rightarrow> jsval \<Rightarrow> boot \<Rightarrow> boot \<times> exn option" where
  "op_success op v b =
     (case op of
        CountryListOp cb \<Rightarrow> call_cb cb v [] (console_log (log_text ''Get country list'') b)
      | AddClientOp cb \<Rightarrow> call_cb cb JUndefined [] (console_log (LogVal (AVal v)) b))"

definition op_failure :: "boot_op \<Rightarrow> jsval \<Rightarrow> boot \<Rightarrow> boot \<times> exn option" where
  "op_failure op v b =
     (case op of
        CountryListOp _ \<Rightarrow> (console_log (LogVal (AVal v)) b, None)
      | AddClientOp cb \<Rightarrow> call_cb cb JUndefined [] (console_log (LogVal (AVal v)) b))"

definition on_authenticated :: "boot \<Rightarrow> boot \<times> exn option" where
  "on_authenticated b = run_task 0 [ACb 0] b"

definition reason_entry :: "reason \<Rightarrow> log_entry" where
  "reason_entry r = (case r of ReasonErr e \<Rightarrow> LogExn e | ReasonMsg m \<Rightarrow> log_text m)"

definition boot_step :: "boot \<Rightarrow> boot_event \<Rightarrow> boot" where
  "boot_step b e =
     (if bt_crash b \<noteq> None then b
      else case e of
        AuthSettled p \<Rightarrow>
          (if bt_settled b then b
           else case p of
             Pending \<Rightarrow> b
           | Fulfilled _ \<Rightarrow>
               (case on_authenticated (b\<lparr>bt_settled := True\<rparr>) of
                  (b', None) \<Rightarrow> b'
                | (b', Some x) \<Rightarrow> b'\<lparr>bt_rejected := bt_rejected b' @ [x]\<rparr>)
           | Rejected r \<Rightarrow> console_log (reason_entry r) (b\<lparr>bt_settled := True\<rparr>))
      | OpSuccess i v \<Rightarrow>
          (if i < length (bt_ops b) then
             (case op_success (bt_ops b ! i) v b of (b', x) \<Rightarrow> b'\<lparr>bt_crash := x\<rparr>)
           else b)
      | OpFailure i v \<Rightarrow>
          (if i < length (bt_ops b) then
             (case op_failure (bt_ops b ! i) v b of (b', x) \<Rightarrow> b'\<lparr>bt_crash := x\<rparr>)
           else b))"

definition boot_run :: "boot \<Rightarrow> boot_event list \<Rightarrow> boot" where
  "boot_run b es = foldl boot_step b es"

definition boot_init :: "client \<Rightarrow> boot" where
  "boot_init c =
     \<lparr>bt_caps = caps c, bt_console = [], bt_ops = [], bt_final = False, bt_settled = False,
      bt_rejected = [], bt_crash = None\<rparr>"

inductive boot_reach :: "client \<Rightarrow> boot \<Rightarrow> bool" for c where
  start: "boot_reach c (boot_init c)"
| step: "boot_reach c b \<Longrightarrow> boot_reach c (boot_step b e)"

definition repo_modules :: module_table where
  "repo_modules p =
     (if p \<in> set packages \<or> p = ''mongoose'' then Inr Map.empty
      else Inl (JsError ''Error'' (''Cannot find module '' @ [sq] @ p @ [sq])))"

text \<open>A module table in which every module resolves and the Base64 helper and the client
  manager are constructed.\<close>

definition full_modules :: module_table where
  "full_modules p =
     (if p = ''./components/base64'' then Inr [''Base64'' \<mapsto> ExportCtor (Constructs Base64Helper)]
      else if p = ''./components/clientmanager'' then
        Inr [''Clientmanager'' \<mapsto> ExportCtor (Constructs (Manager ''Clientmanager''))]
      else Inr Map.empty)"

definition boot_client :: client where
  "boot_client = sample_client\<lparr>caps := [''base64'' \<mapsto> Base64Helper, ''clientmanager'' \<mapsto> Manager ''Clientmanager'']\<rparr>"

definition ops_ok :: "boot \<Rightarrow> bool" where
  "ops_ok b \<longleftrightarrow> (\<forall>op \<in> set (bt_ops b). op = CountryListOp (ACb 0) \<or> op = AddClientOp (AVal JUndefined))"

definition stalled :: "boot \<Rightarrow> bool" where
  "stalled b \<longleftrightarrow> \<not> bt_final b \<and> (\<forall>op \<in> set (bt_ops b). case op of CountryListOp _ \<Rightarrow> True | AddClientOp _ \<Rightarrow> False)"

lemma manager_call_ops:
  "manager_call meth op b = (b', x) \<Longrightarrow> bt_ops b' = bt_ops b \<or> bt_ops b' = bt_ops b @ [op]"
  by (auto simp: manager_call_def split: option.splits capability.splits)

lemma wf_callback_ops:
  assumes "wf_callback j err [] b = (b', x)" and "ops_ok b"
  shows "ops_ok b'"
  using assms manager_call_ops[of "''addclient''" "AddClientOp (AVal JUndefined)"]
  by (fastforce simp: wf_callback_def run_task_def task_addclient_def wf_tasks_def bind_arg_def
      final_cb_def console_log_def ops_ok_def split: if_splits)

lemma call_cb_ops: "call_cb f err [] b = (b', x) \<Longrightarrow> ops_ok b \<Longrightarrow> ops_ok b'"
  by (cases f) (auto simp: call_cb_def intro: wf_callback_ops)

lemma ops_ok_log [simp]: "ops_ok (console_log l b) = ops_ok b"
  by (simp add: ops_ok_def console_log_def)

lemma ops_ok_update [simp]:
  "ops_ok (b\<lparr>bt_settled := t\<rparr>) = ops_ok b" "ops_ok (b\<lparr>bt_crash := x\<rparr>) = ops_ok b"
  "ops_ok (b\<lparr>bt_rejected := r\<rparr>) = ops_ok b"
  by (simp_all add: ops_ok_def)

lemma on_authenticated_ops: "on_authenticated b = (b', x) \<Longrightarrow> ops_ok b \<Longrightarrow> ops_ok b'"
  using manager_call_ops[of "''getcountrylist''" "CountryListOp (ACb 0)"]
  by (fastforce simp: on_authenticated_def run_task_def task_countrylist_def bind_arg_def ops_ok_def
      console_log_def)

lemma boot_step_ops: "ops_ok b \<Longrightarrow> ops_ok (boot_step b e)"
  by (cases e)
     (auto simp: boot_step_def op_success_def op_failure_def
       split: promise_state.split prod.split boot_op.split option.split
       dest: call_cb_ops on_authenticated_ops)

lemma boot_reach_ops: "boot_reach c b \<Longrightarrow> ops_ok b"
proof (induction rule: boot_reach.induct)
  case start then show ?case by (simp add: boot_init_def ops_ok_def)
next
  case (step b e) from step.IH show ?case by (rule boot_step_ops)
qed

lemmas boot_simps = boot_step_def on_authenticated_def run_task_def task_countrylist_def task_addclient_def
  manager_call_def console_log_def bind_arg_def op_success_def op_failure_def call_cb_def wf_callback_def
  wf_tasks_def final_cb_def boot_init_def boot_run_def

text \<open>
  C24. In every run of the debug script, whatever the server and the manager do, an
  \<open>addclient\<close> call never receives the waterfall's callback: its \<open>cb\<close> parameter is
  \<open>undefined\<close> (the invariant \<open>ops_ok\<close>, by rule induction on \<open>boot_reach\<close>), so
  its completion, successful or not, throws \<open>cb is not a function\<close> and ends the process.
\<close>

theorem addclient_completion_crashes:
  assumes "boot_reach c b" and "bt_crash b = None" and "i < length (bt_ops b)"
    and "bt_ops b ! i = AddClientOp a"
  shows "bt_crash (boot_step b (OpSuccess i v)) = Some (type_error ''cb is not a function'') \<and>
         bt_crash (boot_step b (OpFailure i v)) = Some (type_error ''cb is not a function'')"
proof -
  have "a = AVal JUndefined"
    using boot_reach_ops[OF assms(1)] assms(3,4) nth_mem unfolding ops_ok_def by fastforce
  with assms(2-4) show ?thesis by (simp add: boot_step_def op_success_def op_failure_def call_cb_def)
qed

text \<open>
  C22. The country list aborts the waterfall: the success handler passes the result as
  the error argument (\<open>cb(result)\<close>), so for every truthy result \<open>async.waterfall\<close>
  jumps to the final callback; \<open>addclient\<close> is never called.
\<close>

theorem countrylist_result_aborts_waterfall:
  assumes "caps c ''clientmanager'' = Some (Manager m)" and "js_truthy v"
  shows "boot_run (boot_init c) [AuthSettled (Fulfilled r), OpSuccess 0 v] =
     (boot_init c)\<lparr>bt_console := [log_text ''Waterfall start'', log_text ''Get country list'', log_text final_line],
        bt_ops := [CountryListOp (ACb 0)], bt_final := True, bt_settled := True\<rparr>"
  using assms by (simp add: boot_simps)

text \<open>
  C23. For a falsy result the waterfall goes on without the list: the second task is
  called with the callback alone, so \<open>countrylist\<close> is the callback (which is what it
  logs) and \<open>addclient\<close> is launched with an undefined \<open>cb\<close>.
\<close>

theorem countrylist_falsy_skips_list:
  assumes "caps c ''clientmanager'' = Some (Manager m)" and "\<not> js_truthy v"
  shows "boot_run (boot_init c) [AuthSettled (Fulfilled r), OpSuccess 0 v] =
     (boot_init c)\<lparr>bt_console := [log_text ''Waterfall start'', log_text ''Get country list'', LogVal (ACb 1)],
        bt_ops := [CountryListOp (ACb 0), AddClientOp (AVal JUndefined)], bt_settled := True\<rparr>"
  using assms by (simp add: boot_simps)

text \<open>
  C26. Without the client manager capability the success handler of
  \<open>authenticate().then\<close> throws on \<open>newClient.clientmanager.getcountrylist\<close>: the
  promise returned by \<open>then\<close> is rejected with the \<open>TypeError\<close> and nothing handles it.
\<close>

theorem then_without_clientmanager:
  assumes "caps c ''clientmanager'' = None"
  shows "boot_run (boot_init c) [AuthSettled (Fulfilled r)] =
     (boot_init c)\<lparr>bt_console := [log_text ''Waterfall start''], bt_settled := True,
        bt_rejected := [type_error (''Cannot read properties of undefined (reading '' @ [sq] @ ''getcountrylist'' @ [sq] @ '')'')]\<rparr>"
  using assms by (simp add: boot_simps)

lemma stalled_nth: "stalled b \<Longrightarrow> i < length (bt_ops b) \<Longrightarrow> \<exists>a. bt_ops b ! i = CountryListOp a"
  unfolding stalled_def by (metis (full_types) boot_op.exhaust boot_op.simps(6) nth_mem)

lemma stalled_step:
  assumes st: "stalled b" and e: "\<forall>i v. e \<noteq> OpSuccess i v"
  shows "stalled (boot_step b e)"
proof (cases e)
  case (OpFailure i v)
  show ?thesis
  proof (cases "i < length (bt_ops b) \<and> bt_crash b = None")
    case True
    then obtain a where "bt_ops b ! i = CountryListOp a" using stalled_nth[OF st] by blast
    with True OpFailure st show ?thesis
      by (simp add: boot_step_def op_failure_def console_log_def stalled_def)
  next
    case False
    with OpFailure st show ?thesis by (auto simp: boot_step_def)
  qed
next
  case (AuthSettled p)
  with st show ?thesis
    by (auto simp: boot_step_def on_authenticated_def run_task_def task_countrylist_def
        manager_call_def console_log_def stalled_def
        split: promise_state.split prod.split option.split capability.split)
qed (use e in simp)

text \<open>
  C25. If \<open>getcountrylist\<close> only ever reports failure, the waterfall never finishes: its
  error handler logs and does not call \<open>cb\<close>, so in every run without a success
  callback the final callback never runs.
\<close>

theorem waterfall_never_finishes:
  "\<forall>e \<in> set es. \<forall>i v. e \<noteq> OpSuccess i v \<Longrightarrow> \<not> bt_final (boot_run (boot_init c) es)"
proof -
  assume es: "\<forall>e \<in> set es. \<forall>i v. e \<noteq> OpSuccess i v"
  have "stalled b \<Longrightarrow> stalled (foldl boot_step b es)" for b
    using es by (induction es arbitrary: b) (simp_all add: stalled_step)
  moreover have "stalled (boot_init c)" by (simp add: stalled_def boot_init_def)
  ultimately show ?thesis by (simp add: boot_run_def stalled_def)
qed

lemma require_repo_packages: "require_all repo_modules packages = None"
  by (simp add: packages_def repo_modules_def)

lemma failure_lines_repo:
  "n \<in> set components \<Longrightarrow>
   failure_lines repo_modules n = [cant_find_line n (JsError ''Error'' (''Cannot find module '' @ [sq] @ component_path n @ [sq]))]"
  by (auto simp: components_def component_path_simps repo_modules_def packages_def failure_lines_def)

text \<open>
  C20. The module cannot be loaded from the repository as it stands: \<open>debugMode\<close> is
  \<open>true\<close>, so loading \<open>index.js\<close> runs the debug script, whose
  \<open>require('./models/naitonclient')\<close> names a file that is not in the repository. With
  the npm packages installed and no component modules, loading logs one
  \<open>Cant find file\<close> line per component and then throws the module-not-found error.
\<close>

theorem boot_load_repository:
  "boot_load repo_modules dec ex =
     LoadThrows (map (\<lambda>n. cant_find_line n (JsError ''Error'' (''Cannot find module '' @ [sq] @ component_path n @ [sq])))
                   components)
       (JsError ''Error'' (''Cannot find module '' @ [sq] @ ''./models/naitonclient'' @ [sq]))"
proof -
  obtain c ex' out where nc: "new_client repo_modules boot_options ex = (c, ex', out)"
    by (cases "new_client repo_modules boot_options ex")
  have "out = concat (map (failure_lines repo_modules) components)"
    using new_client_console[of repo_modules boot_options ex] nc by simp
  also have "\<dots> = map (\<lambda>n. cant_find_line n (JsError ''Error'' (''Cannot find module '' @ [sq] @ component_path n @ [sq])))
                   components"
    by (rule concat_map_singletons) (rule failure_lines_repo)
  finally have out: "out = \<dots>" .
  have req: "require_all repo_modules [''mongoose'', ''./models/naitonclient''] =
      Some (JsError ''Error'' (''Cannot find module '' @ [sq] @ ''./models/naitonclient'' @ [sq]))"
    by (simp add: repo_modules_def packages_def)
  show ?thesis
    by (simp only: boot_load_def require_repo_packages nc out req option.case prod.case)
qed

text \<open>
  C21. Loading the module has a network side effect: when every module resolves and the
  Base64 helper is constructed, loading \<open>index.js\<close> sends one InitializeSession
  request, with the default credentials merged with \<open>env: 'test'\<close>, to the live host,
  with the authentication promise as its continuation.
\<close>

theorem boot_load_sends_login:
  assumes "require_all mods packages = None" and "require_all mods [''mongoose'', ''./models/naitonclient''] = None"
    and "loaded mods ''Base64'' = Some Base64Helper"
  shows "case boot_load mods dec ex of
           Loaded s \<Rightarrow>
             map (req_url \<circ> p_request) (s_pending s) = [''http://webservice.naiton.com/service/initializesession''] \<and>
             map (req_body \<circ> p_request) (s_pending s) = [auth_body base64_encode (merge_options defaults boot_options)] \<and>
             map p_sink (s_pending s) = [PromiseSink 0]
         | LoadThrows _ _ \<Rightarrow> False"
proof -
  obtain c ex' out where nc: "new_client mods boot_options ex = (c, ex', out)" by (cases "new_client mods boot_options ex")
  have b64: "caps c ''base64'' = Some Base64Helper"
    using new_client_caps_loaded[of "''Base64''" mods boot_options ex] assms(3) nc
    by (simp add: components_def js_lower_simps)
  have opts: "options c = merge_options defaults boot_options" "url c = ''http://webservice.naiton.com''"
    using new_client_frame[of mods boot_options ex] nc by (simp_all add: base_url_def)
  show ?thesis
    using assms(1,2) nc b64 opts
    by (simp add: boot_load_def sys_step_def auth_step_ok issue_def init_sys_def post_request_def
        set_action_def init_action_def)
qed

theorem boot_load_sends_login_witness:
  "case boot_load full_modules sample_decoders Map.empty of
     Loaded s \<Rightarrow>
       map (req_url \<circ> p_request) (s_pending s) = [''http://webservice.naiton.com/service/initializesession''] \<and>
       map (req_body \<circ> p_request) (s_pending s) = [auth_body base64_encode (merge_options defaults boot_options)] \<and>
       map p_sink (s_pending s) = [PromiseSink 0]
   | LoadThrows _ _ \<Rightarrow> False"
  by (rule boot_load_sends_login)
     (simp_all add: full_modules_def packages_def loaded_def component_path_simps)

theorem addclient_completion_crashes_witness:
  "bt_crash (boot_step (boot_run (boot_init boot_client) [AuthSettled (Fulfilled None), OpSuccess 0 (JStr [])])
      (OpSuccess 1 (JStr ''ok''))) = Some (type_error ''cb is not a function'') \<and>
   bt_crash (boot_step (boot_run (boot_init boot_client) [AuthSettled (Fulfilled None), OpSuccess 0 (JStr [])])
      (OpFailure 1 (JStr ''ok''))) = Some (type_error ''cb is not a function'')"
proof -
  have r: "boot_reach boot_client (boot_run (boot_init boot_client) [AuthSettled (Fulfilled None), OpSuccess 0 (JStr [])])"
    unfolding boot_run_def by (simp add: boot_reach.start boot_reach.step)
  have "bt_crash (boot_run (boot_init boot_client) [AuthSettled (Fulfilled None), OpSuccess 0 (JStr [])]) = None \<and>
        1 < length (bt_ops (boot_run (boot_init boot_client) [AuthSettled (Fulfilled None), OpSuccess 0 (JStr [])])) \<and>
        bt_ops (boot_run (boot_init boot_client) [AuthSettled (Fulfilled None), OpSuccess 0 (JStr [])]) ! 1 =
          AddClientOp (AVal JUndefined)"
    by (simp add: boot_simps boot_client_def sample_client_def)
  then show ?thesis using addclient_completion_crashes[OF r] by blast
qed

theorem countrylist_result_aborts_waterfall_witness:
  "boot_run (boot_init boot_client) [AuthSettled (Fulfilled (Some ok_body)), OpSuccess 0 (JStr ''<countries/>'')] =
     (boot_init boot_client)\<lparr>bt_console := [log_text ''Waterfall start'', log_text ''Get country list'', log_text final_line],
        bt_ops := [CountryListOp (ACb 0)], bt_final := True, bt_settled := True\<rparr>"
  by (rule countrylist_result_aborts_waterfall) (simp_all add: boot_client_def)

theorem countrylist_falsy_skips_list_witness:
  "boot_run (boot_init boot_client) [AuthSettled (Fulfilled (Some ok_body)), OpSuccess 0 (JStr [])] =
     (boot_init boot_client)\<lparr>bt_console := [log_text ''Waterfall start'', log_text ''Get country list'', LogVal (ACb 1)],
        bt_ops := [CountryListOp (ACb 0), AddClientOp (AVal JUndefined)], bt_settled := True\<rparr>"
  by (rule countrylist_falsy_skips_list) (simp_all add: boot_client_def)

theorem then_without_clientmanager_witness:
  "boot_run (boot_init sample_client) [AuthSettled (Fulfilled (Some ok_body))] =
     (boot_init sample_client)\<lparr>bt_console := [log_text ''Waterfall start''], bt_settled := True,
        bt_rejected := [type_error (''Cannot read properties of undefined (reading '' @ [sq] @ ''getcountrylist'' @ [sq] @ '')'')]\<rparr>"
  by (rule then_without_clientmanager) (simp add: sample_client_def)

theorem waterfall_never_finishes_witness:
  "\<not> bt_final (boot_run (boot_init boot_client)
      [AuthSettled (Fulfilled (Some ok_body)), OpFailure 0 (JStr ''ETIMEDOUT''), OpFailure 0 (JStr ''ECONNRESET'')])"
  by (rule waterfall_never_finishes) simp

end
