(* ===== verification/Spec2Isabelle.thy ===== *)
theory Spec2Isabelle
  imports Bootstrap
begin

text \<open>
  Verification development of node-naiton, a client library for the Naiton web service
  (\<open>src/index.js\<close>). The library builds a client object from caller options, attaches
  capability modules to it, logs in with an XML \<open>InitializeSession\<close> request whose
  JSON answer carries a session token, and offers \<open>post\<close> to the capability modules
  for every later request. The model is a shallow embedding: each function of the source is
  a HOL definition of the same name or of a name given below, JavaScript objects are
  records, exceptions and early returns are values of a sum type, and the asynchronous
  behaviour is an explicit event loop.

  \<^bold>\<open>Theories and what they model.\<close>
  \<^item> \<open>Prelude\<close>: JavaScript values (\<open>jsval\<close>), exceptions (\<open>exn\<close>), property reads
    with their \<open>TypeError\<close> (\<open>js_get\<close>), the UTF-8 view of strings as \<open>8 word\<close> lists
    (\<open>utf8_bytes\<close>, \<open>byte_length\<close> = \<open>Buffer.byteLength\<close>), decimal rendering of
    numbers (\<open>show_nat\<close>) and a tag scanner used to read XML text back.
  \<^item> \<open>Options\<close>: the \<open>defaults\<close> object (lines 33--54), \<open>_.merge\<close> of the caller's
    options (\<open>merge_options\<close>, line 59) and the base URL (\<open>base_url\<close>, lines 61--65).
  \<^item> \<open>Registry\<close>: the constructor loop (lines 67--77) as \<open>load_component\<close> and
    \<open>load_components\<close> over the list \<open>components\<close> (line 17); \<open>new_client\<close> is
    \<open>new Client\<close> / \<open>createClient\<close> (lines 31--90). The module system is the parameter
    \<open>module_table\<close>: \<open>require\<close> either throws or returns the module's exports.
  \<^item> \<open>Usage\<close>: \<open>verifyAPIUsage\<close> (lines 207--217).
  \<^item> \<open>Base64\<close>: the \<open>base64\<close> capability. Its module is not in the repository; it is
    modelled from the specification as RFC 4648 Base64 over UTF-8 bytes.
  \<^item> \<open>Envelope\<close>: the \<open>InitializeSession\<close> body of \<open>authenticate\<close> (\<open>auth_body\<close>,
    lines 169--188) and a receiver-side reader \<open>read_arg\<close> that honours the encoding
    flags of the options block.
  \<^item> \<open>Transport\<close>: \<open>post\<close> (lines 104--149) as the request it builds
    (\<open>post_request\<close>) and its response callback (\<open>post_callback\<close>, lines 117--147),
    with the return-type switch (\<open>decode_body\<close>) and the token capture
    (\<open>capture_token\<close>). The callback's result lists its \<open>resolve\<close>/\<open>reject\<close>
    calls in order, its console lines and the exception that escapes it; \<open>settle\<close> is the
    first-call-wins rule of a promise. \<open>JSON.parse\<close> and \<open>xml2js\<close> are the parameter
    \<open>decoders\<close>.
  \<^item> \<open>Session\<close>: \<open>authenticate\<close> (lines 161--195) and the event loop. The state
    \<open>sys\<close> holds the client, the requests in flight with their continuations, every
    continuation call made, the console, synchronous throws and the exception that ended the
    process. \<open>sys_step\<close> runs one event: a call of \<open>authenticate\<close>, a direct \<open>post\<close>, a
    write of \<open>options.action\<close>, a capability operation (\<open>operation_step\<close>: guard, set
    the action, post; modelled from the specification since the manager modules are absent),
    or the transport completing any request in flight. \<open>run\<close> folds a list of events.
    The request identifiers and continuation sinks of \<open>sys\<close> are bookkeeping of the
    model; \<open>wf_sys\<close> says they are consistent and is kept by every turn.
  \<^item> \<open>Bootstrap\<close>: what loading \<open>index.js\<close> does while \<open>debugMode\<close> is \<open>true\<close>
    (lines 4--10 and 226--296). \<open>boot_load\<close> requires the packages, creates the client
    with \<open>env: 'test'\<close>, requires \<open>mongoose\<close> and the model file and calls
    \<open>authenticate\<close>; \<open>boot_step\<close> runs the \<open>then\<close> handlers and the two-task
    \<open>async.waterfall\<close> (\<open>task_countrylist\<close>, \<open>task_addclient\<close>, \<open>final_cb\<close>) as the
    manager calls their handlers, in any order and any number of times; \<open>boot_reach\<close> is
    its reachability relation. \<open>wf_callback\<close> is the waterfall dispatch of async 1.x.

  \<^bold>\<open>What is shown.\<close> C1--C9 (\<open>Transport\<close>, \<open>Envelope\<close>): the response callback
  on every branch (token stored on success; reject then resolve on a refusal; reject on a
  transport error; an escaping exception on a malformed JSON body; the token untouched for
  other actions; XML errors discarded; a token-less \<open>success\<close> accepted), the round trip
  of the login envelope through Base64, and its failure for a password with markup.
  C10--C14 (\<open>Session\<close>), each from every well-formed live state: the token has a single
  writer (a delivered response under the initialize-session action); authentication end to
  end; the race in which another action written during the login flight loses the token;
  the cross-talk in which an earlier request's response sets it; the synchronous throw
  without the Base64 capability. C15--C18 (\<open>Registry\<close>), for every module table: the
  capability map refines the specification's static table (\<open>registry_spec\<close>), the
  configuration and console, the \<open>exports\<close> object, and a throwing constructor. C19: the
  byte length of the login request. C20--C26 (\<open>Bootstrap\<close>): the module cannot be
  loaded from the repository as it stands; when it loads, it logs in at load time; the
  country list aborts the waterfall (\<open>cb(result)\<close>), or for a falsy result never reaches
  \<open>addclient\<close>; every \<open>addclient\<close> completion crashes (an invariant of all reachable
  script states, by rule induction); a failing \<open>getcountrylist\<close> stalls the waterfall
  forever; a missing client manager rejects the \<open>then\<close> promise. The Base64 theory shows
  decoding inverts encoding on all byte lists and strings and bounds the output alphabet and
  length; these facts carry the envelope proofs.

  \<^bold>\<open>Bounds and fuel.\<close> No definition needs fuel: every loop of the source is a
  traversal of a finite list (the component list, the characters of a string) and is
  modelled by structural recursion or \<open>foldl\<close>. The event loops of the session and of the
  debug script are lists of events, so any finite interleaving of calls and responses is
  covered; requests complete in any order. The stall of C25 is stated over every finite
  run without a success callback.
  Characters are code units below 256, which covers the ASCII and Latin-1 text of the
  source and of the examples.

  \<^bold>\<open>Not modelled.\<close> The business manager modules are not in the repository: they
  appear by name in the registry, through the contract of \<open>operation_step\<close> in the
  session, and as arbitrary callers of their handlers in the debug script. The mongoose
  model registry and the document the debug script builds with \<open>new NaitonClient\<close> are
  not modelled; neither affects the control flow. The libraries \<open>request\<close>,
  \<open>xml2js\<close>, \<open>JSON.parse\<close>, \<open>lodash\<close>, \<open>async\<close> and \<open>promise\<close> are called, not
  implemented: the first three are parameters, \<open>_.merge\<close> is modelled by its effect on
  the keys of \<open>defaults\<close>, a promise by its first-call-wins rule, \<open>async.waterfall\<close> by the
  documented dispatch of its task callbacks. \<open>debugMode\<close> is the constant
  \<open>true\<close> of line 16, so the request line is always logged. Caller option keys outside
  \<open>defaults\<close> and values of another type than the default's are not modelled. The XML
  decoder is a total parameter, so the path where \<open>xml2js\<close> rethrows an error after
  the parser has ended is not modelled. \<open>operation_step\<close> keeps no continuation values:
  a continuation that is not a function passes the guard and is never called.
\<close>

end
